theory Spec2Isabelle
  imports Complex_Main
begin

unbundle bit_operations_syntax

section \<open>The printer of \<^verbatim>\<open>src/compiler/printer.ts\<close>: data\<close>

text \<open>
  The printer is one closure (\<^verbatim>\<open>createFilePrinter\<close>) whose local variables are the state
  of a file pass. The embedding keeps them in one record, \<open>PrintSession\<close>, passed
  through every function and returned updated. What the printer calls on its
  collaborators (the text writer, the source map writer, the comment writer) is appended
  to the field \<open>trace\<close> as a list of events, in call order.

  Functions of the repository that are not in \<^verbatim>\<open>printer.ts\<close> (the resolver, the
  transformation context, the helpers of \<^verbatim>\<open>utilities.ts\<close>) are fields of the
  record \<open>env\<close>: the theorems hold for every value of them.

  A loop of the source that need not end (\<^verbatim>\<open>while (true)\<close>) and the recursion between
  the emitters take a fuel argument; running out of it is the error \<open>OutOfFuel\<close>.
\<close>

subsection \<open>Enumerations\<close>

text \<open>\<^verbatim>\<open>const enum TempFlags\<close> (lines 10-14). \<^verbatim>\<open>tempFlags\<close> is a JavaScript number used
  with \<^verbatim>\<open>&\<close>, \<^verbatim>\<open>|=\<close> and \<^verbatim>\<open>++\<close>; below \<open>2 ^ 31\<close> these agree with the operations on
  \<open>int\<close>.\<close>

type_synonym TempFlags = int

definition TempFlags_Auto :: TempFlags where
  "TempFlags_Auto = 0x00000000"

definition TempFlags_CountMask :: TempFlags where
  "TempFlags_CountMask = 0x0FFFFFFF"

definition TempFlags__i :: TempFlags where
  "TempFlags__i = 0x10000000"

text \<open>The syntax kinds this development needs; \<open>VariableDeclaration\<close> stands for the
  kinds that \<^verbatim>\<open>generateNameForNode\<close> sends to its \<^verbatim>\<open>default\<close> branch.\<close>

datatype SyntaxKind =
    Identifier
  | NumericLiteral
  | StringLiteral
  | DotToken
  | PropertyAccessExpression
  | ElementAccessExpression
  | ParenthesizedExpression
  | OmittedExpression
  | FunctionExpression
  | ClassExpression
  | Block
  | ExpressionStatement
  | VariableDeclaration
  | FunctionDeclaration
  | ClassDeclaration
  | ModuleDeclaration
  | EnumDeclaration
  | ImportDeclaration
  | ExportDeclaration
  | ExportAssignment
  | SourceFile

datatype GeneratedIdentifierKind = GIK_None | Auto | Loop | Unique | Node

text \<open>Bit flags whose numeric values are declared outside \<^verbatim>\<open>printer.ts\<close> are sets of
  flag names: \<^verbatim>\<open>flags & F\<close> is \<open>F \<in> flags\<close> and \<^verbatim>\<open>F | flags\<close> is \<open>insert F flags\<close>.\<close>

datatype NodeFlags = HasClassExtends | HasDecorators | HasParamDecorators | HasAsyncFunctions
  | Namespace

datatype NodeEmitFlags =
    EmitEmitHelpers | EmitExportStar | EmitSuperHelper | EmitAdvancedSuperHelper
  | UMDDefine | NoLexicalEnvironment | NoSubstitution | NoComments | NoSourceMap
  | NoNestedSourceMaps | Indented | SingleLine

datatype SymbolFlags = Value | ExportValue | Alias | OtherSymbolFlag

datatype ScriptTarget = ES3 | ES5 | ES6

text \<open>The numeric values of the script targets, for \<^verbatim>\<open>languageVersion < ScriptTarget.ES6\<close>.\<close>

fun scriptTargetValue :: "ScriptTarget \<Rightarrow> nat" where
  "scriptTargetValue ES3 = 0"
| "scriptTargetValue ES5 = 1"
| "scriptTargetValue ES6 = 2"

subsection \<open>Nodes\<close>

text \<open>A node is a JavaScript object: a kind and the fields the printer reads, an absent
  field being \<open>None\<close>. \<open>ref\<close> stands for the object itself: the test \<^verbatim>\<open>a !== b\<close> on two
  nodes is \<open>ref a \<noteq> ref b\<close>. \<open>nodeId\<close> is the field \<^verbatim>\<open>id\<close>, which a node has only once
  it has been given one; a clone that copies the fields of a node carries the \<^verbatim>\<open>id\<close> of
  that node. \<open>hasParent\<close> says whether \<^verbatim>\<open>node.parent\<close> is set.\<close>

datatype Node = MkNode
  (kind: SyntaxKind)
  (ref: nat)
  (nodeId: "nat option")
  (nodeText: string)
  (autoGenerateKind: GeneratedIdentifierKind)
  (flags: "NodeFlags set")
  (pos: int)
  (startsOnNewLine: "bool option")
  (hasParent: bool)
  (locals: "(string \<times> SymbolFlags set) list option")
  (original: "Node option")
  (name: "Node option")
  (expression: "Node option")
  (dotToken: "Node option")
  (argumentExpression: "Node option")
  (textSourceNode: "Node option")
  (nextContainer: "Node option")
  (statements: "Node list")
  (decorators: "Node list option")
  (modifiers: "Node list option")
  (asteriskToken: "Node option")
  (typeParameters: "Node list option")
  (parameters: "Node list option")
  (type: "Node option")
  (body: "Node option")
  (multiLine: bool)

text \<open>A node with a kind and a text, the object \<open>i\<close> with the \<^verbatim>\<open>id\<close> \<open>i\<close>, and every other
  field absent.\<close>

definition plainNode :: "SyntaxKind \<Rightarrow> nat \<Rightarrow> string \<Rightarrow> Node" where
  "plainNode k i t =
     MkNode k i (Some i) t GIK_None {} 0 None True None None None None None None None None []
       None None None None None None None False"

text \<open>A generated identifier: kind of generation, text and \<^verbatim>\<open>original\<close> node.\<close>

definition generatedIdentifier ::
  "nat \<Rightarrow> GeneratedIdentifierKind \<Rightarrow> string \<Rightarrow> Node option \<Rightarrow> Node" where
  "generatedIdentifier i g t orig =
     MkNode Identifier i (Some i) t g {} (- 1) None False None orig None None None None None None []
       None None None None None None None False"


text \<open>Kind tests of \<^verbatim>\<open>utilities.ts\<close>, on the kinds above.\<close>

definition isIdentifier :: "Node \<Rightarrow> bool" where
  "isIdentifier node \<longleftrightarrow> kind node = Identifier"

definition isGeneratedIdentifier :: "Node \<Rightarrow> bool" where
  "isGeneratedIdentifier node \<longleftrightarrow> isIdentifier node \<and> autoGenerateKind node \<noteq> GIK_None"

definition isLiteralExpression :: "Node \<Rightarrow> bool" where
  "isLiteralExpression node \<longleftrightarrow> kind node = NumericLiteral \<or> kind node = StringLiteral"

definition isPropertyAccessExpression :: "Node \<Rightarrow> bool" where
  "isPropertyAccessExpression node \<longleftrightarrow> kind node = PropertyAccessExpression"

definition isElementAccessExpression :: "Node \<Rightarrow> bool" where
  "isElementAccessExpression node \<longleftrightarrow> kind node = ElementAccessExpression"

text \<open>Modelled from the spec: \<^verbatim>\<open>getNodeId\<close> is not in the source at hand. By the spec the
  memo table of generated names is keyed by the identity of a node. The key is the field
  \<^verbatim>\<open>id\<close> of the node when it has one (\<open>Given\<close>), so that a clone that carries the \<^verbatim>\<open>id\<close> of
  its original shares the key; a node without one gets an id of its own (\<open>Assigned\<close>, one
  for each object), different from every id given before. The model does not write an
  assigned id back into the node: \<open>nodeId\<close> is the field as the tree has it when the pass
  starts.\<close>

datatype NodeId = Given nat | Assigned nat

definition getNodeId :: "Node \<Rightarrow> NodeId" where
  "getNodeId node = (case nodeId node of Some i \<Rightarrow> Given i | None \<Rightarrow> Assigned (ref node))"

subsection \<open>Numbers\<close>

text \<open>A constant value reported by the resolver is a JavaScript number: a finite value
  (every finite double is a rational), \<^verbatim>\<open>NaN\<close> or an infinity.\<close>

datatype number = Finite rat | NaN | PlusInfinity | MinusInfinity

fun isFinite :: "number option \<Rightarrow> bool" where
  "isFinite (Some (Finite q)) = True"
| "isFinite _ = False"

fun Math_floor :: "number \<Rightarrow> number" where
  "Math_floor (Finite q) = Finite (of_int \<lfloor>q\<rfloor>)"
| "Math_floor v = v"

subsection \<open>The state of a file pass\<close>

text \<open>What the printer calls on the writer, the source map writer, the comment writer and
  the substitution hooks, in call order. \<open>EmitStart\<close> and \<open>EmitEnd\<close> carry the node and
  the values at that node of the two predicates the printer passes along
  (\<^verbatim>\<open>shouldIgnoreSourceMapForNode\<close>, \<^verbatim>\<open>shouldIgnoreSourceMapForChildren\<close>); the comment
  events carry the comment ranges the printer hands over. \<open>WriteUndefined\<close> is
  \<^verbatim>\<open>write(undefined)\<close>, \<open>Substitution\<close> a call of a substitution hook on a node,
  \<open>EmitDetachedComments\<close> the detached comments of a source file and
  \<open>EmitDetachedCommentsOfStatements\<close> those of the statements of a function body,
  \<open>EmitEndOfFileComments\<close> the leading comments of the end-of-file token of a source file,
  \<open>EmitEndOfBodyComments\<close> those of the collapsed end of the statements of a function body,
  and \<open>SetSourceFile\<close> the two \<^verbatim>\<open>setSourceFile\<close> calls of \<^verbatim>\<open>printSourceFile\<close>. The trace
  also keeps every call of the printer's own \<^verbatim>\<open>writeLines\<close>, with the text it is called
  with, as \<open>WriteLines\<close>, ahead of the calls of \<^verbatim>\<open>write\<close> and \<^verbatim>\<open>writeLine\<close> that the call
  makes: \<^verbatim>\<open>writeLines\<close> is how the printer emits a helper, and the text a leaf of the tree
  writes can be any text.\<close>

type_synonym CommentRange = "int \<times> int"

datatype event =
    Write string
  | WriteUndefined
  | WriteLiteral string
  | WriteLine
  | IncreaseIndent
  | DecreaseIndent
  | EmitLeadingComments Node "CommentRange list"
  | EmitTrailingComments Node "CommentRange list"
  | EmitStart Node bool bool
  | EmitEnd Node bool bool
  | Substitution Node
  | WriteLines string
  | EmitDetachedComments Node
  | EmitDetachedCommentsOfStatements Node
  | EmitEndOfFileComments Node
  | EmitEndOfBodyComments Node
  | SetSourceFile Node
  | StartLexicalEnvironment
  | EndLexicalEnvironment

datatype error = OutOfFuel | TypeError | NotModelled

record PrintSession =
  nodeToGeneratedName :: "NodeId \<rightharpoonup> string"
  generatedNameSet :: "string set"
  tempFlags :: TempFlags
  currentSourceFile :: "Node option"
  currentText :: "string option"
  currentFileIdentifiers :: "string set"
  extendsEmitted :: bool
  decorateEmitted :: bool
  paramEmitted :: bool
  awaiterEmitted :: bool
  nodeEmitFlags :: "nat \<Rightarrow> NodeEmitFlags set"
  trace :: "event list"

type_synonym 'a result = "error + 'a \<times> PrintSession"

subsection \<open>Collaborators and options\<close>

record CompilerOptions =
  noEmitHelpers :: bool
  emitDecoratorMetadata :: bool
  removeComments :: bool
  isolatedModules :: bool
  sourceMap :: bool
  inlineSourceMap :: bool

record EmitResolver =
  hasGlobalName :: "string \<Rightarrow> bool"
  getConstantValue :: "Node \<Rightarrow> number option"

text \<open>The transformation context. A substitution hook may be absent (\<^verbatim>\<open>undefined\<close>);
  \<^verbatim>\<open>onEmitNode\<close> receives the node and the emitter it may call; the statements that
  \<^verbatim>\<open>endLexicalEnvironment\<close> returns depend on what has happened so far.\<close>

record TransformationContext =
  isExpressionSubstitutionEnabled :: "Node \<Rightarrow> bool"
  isEmitNotificationEnabled :: "Node \<Rightarrow> bool"
  expressionSubstitution :: "(Node \<Rightarrow> Node) option"
  identifierSubstitution :: "(Node \<Rightarrow> Node) option"
  onEmitNode ::
    "Node \<Rightarrow> (Node option \<Rightarrow> PrintSession \<Rightarrow> unit result) \<Rightarrow> PrintSession \<Rightarrow> unit result"
  endLexicalEnvironment :: "event list \<Rightarrow> Node list"

text \<open>The queries of the comment writer.\<close>

record CommentWriter =
  getLeadingComments :: "Node \<Rightarrow> (Node \<Rightarrow> bool) \<Rightarrow> CommentRange list"
  getTrailingComments :: "Node \<Rightarrow> (Node \<Rightarrow> bool) \<Rightarrow> CommentRange list"
  getTrailingCommentsOfPosition :: "int \<Rightarrow> CommentRange list"

text \<open>Helpers of \<^verbatim>\<open>utilities.ts\<close>, \<^verbatim>\<open>core.ts\<close> and the scanner that the printer calls.
  \<open>identifiersOf\<close> is the table \<^verbatim>\<open>node.identifiers\<close> of a source file;
  \<open>forEachReturnsFirstTruthy\<close> says whether \<^verbatim>\<open>forEach\<close> stops at the first element for
  which its callback returns a truthy value.\<close>

record Utilities =
  unescapeIdentifier :: "string \<Rightarrow> string"
  escapeIdentifier :: "string \<Rightarrow> string"
  escapeString :: "string \<Rightarrow> string"
  escapeNonAsciiCharacters :: "string \<Rightarrow> string"
  makeIdentifierFromModuleName :: "string \<Rightarrow> string"
  getExternalModuleName :: "Node \<Rightarrow> Node option"
  isNodeDescendantOf :: "Node \<Rightarrow> Node \<Rightarrow> bool"
  nodeIsSynthesized :: "Node \<Rightarrow> bool"
  positionIsSynthesized :: "int \<Rightarrow> bool"
  isExpression :: "Node \<Rightarrow> bool"
  isNotEmittedStatement :: "Node \<Rightarrow> bool"
  isNotEmittedOrPartiallyEmittedNode :: "Node \<Rightarrow> bool"
  getSourceTextOfNodeFromSourceFile :: "Node option \<Rightarrow> Node \<Rightarrow> bool option \<Rightarrow> string"
  getLiteralText :: "Node \<Rightarrow> Node option \<Rightarrow> ScriptTarget \<Rightarrow> string"
  declarationNameToString :: "Node option \<Rightarrow> string"
  rangeIsOnSingleLine :: "Node \<Rightarrow> Node option \<Rightarrow> bool"
  rangeStartPositionsAreOnSameLine :: "Node \<Rightarrow> Node \<Rightarrow> Node option \<Rightarrow> bool"
  rangeEndPositionsAreOnSameLine :: "Node \<Rightarrow> Node \<Rightarrow> Node option \<Rightarrow> bool"
  rangeEndIsOnSameLineAsRangeStart :: "Node \<Rightarrow> Node \<Rightarrow> Node option \<Rightarrow> bool"
  numberToString :: "number \<Rightarrow> string"
  getShebang :: "string option \<Rightarrow> string option"
  isPrologueDirective :: "Node \<Rightarrow> bool"
  identifiersOf :: "Node \<Rightarrow> string set"
  forEachReturnsFirstTruthy :: bool

text \<open>\<open>getLine\<close> is \<^verbatim>\<open>writer.getLine()\<close>, a function of what the writer has been given.\<close>

record env =
  compilerOptions :: CompilerOptions
  languageVersion :: ScriptTarget
  moduleKindIsSet :: bool
  resolver :: EmitResolver
  transformContext :: TransformationContext
  comments :: CommentWriter
  getLine :: "event list \<Rightarrow> nat"
  sourceMappingURL :: "string option"
  util :: Utilities

text \<open>Modelled from the spec: \<^verbatim>\<open>getNodeEmitFlags\<close> and \<^verbatim>\<open>setNodeEmitFlags\<close> belong to
  the transformation context (\<^verbatim>\<open>transformer.ts\<close>); the spec describes them as per-node
  flags held in an identity-keyed side table: the key is the object, \<open>ref\<close>.\<close>

definition getNodeEmitFlags :: "PrintSession \<Rightarrow> Node \<Rightarrow> NodeEmitFlags set" where
  "getNodeEmitFlags s node = nodeEmitFlags s (ref node)"

definition setNodeEmitFlags :: "Node \<Rightarrow> NodeEmitFlags set \<Rightarrow> PrintSession \<Rightarrow> PrintSession" where
  "setNodeEmitFlags node fl s = s\<lparr>nodeEmitFlags := (nodeEmitFlags s)(ref node := fl)\<rparr>"

section \<open>The generated-name resolver\<close>

subsection \<open>Texts of numbers and characters\<close>

text \<open>\<^verbatim>\<open>String.fromCharCode\<close> on a code below 256, and the decimal text that
  \<^verbatim>\<open>"_" + n\<close> gives for a natural number \<open>n\<close>.\<close>

definition fromCharCode :: "int \<Rightarrow> char" where
  "fromCharCode c = char_of c"

definition CharacterCodes_a :: int where
  "CharacterCodes_a = 0x61"

definition digitChar :: "nat \<Rightarrow> char" where
  "digitChar d = fromCharCode (0x30 + int d)"

fun decimalText :: "nat \<Rightarrow> string" where
  "decimalText n =
     (if 10 \<le> n then decimalText (n div 10) @ [digitChar (n mod 10)] else [digitChar n])"

declare decimalText.simps [simp del]

subsection \<open>\<^verbatim>\<open>isUniqueName\<close>, \<^verbatim>\<open>isUniqueLocalName\<close> (lines 2486-2502)\<close>

definition isUniqueName :: "env \<Rightarrow> PrintSession \<Rightarrow> string \<Rightarrow> bool" where
  "isUniqueName e s nm \<longleftrightarrow>
     \<not> hasGlobalName (resolver e) nm \<and>
     nm \<notin> currentFileIdentifiers s \<and>
     nm \<notin> generatedNameSet s"

lemma size_nextContainer [termination_simp]:
  "nextContainer n = Some m \<Longrightarrow> size m < size n"
  by (cases n) simp

lemma size_original [termination_simp]:
  "original n = Some m \<Longrightarrow> size m < size n"
  by (cases n) simp

text \<open>The \<^verbatim>\<open>for\<close> loop of \<^verbatim>\<open>isUniqueLocalName\<close>, from the node it has reached. The
  loop ends at an absent \<^verbatim>\<open>nextContainer\<close>: \<^verbatim>\<open>isNodeDescendantOf(undefined, container)\<close>
  is false.\<close>

fun isUniqueLocalName_from :: "env \<Rightarrow> string \<Rightarrow> Node \<Rightarrow> Node \<Rightarrow> bool" where
  "isUniqueLocalName_from e nm container node =
     (if \<not> isNodeDescendantOf (util e) node container then True
      else if (case locals node of
                 None \<Rightarrow> False
               | Some ls \<Rightarrow>
                   (case map_of ls nm of
                      None \<Rightarrow> False
                    | Some fl \<Rightarrow> fl \<inter> {Value, ExportValue, Alias} \<noteq> {}))
           then False
      else (case nextContainer node of
              None \<Rightarrow> True
            | Some next_node \<Rightarrow> isUniqueLocalName_from e nm container next_node))"

declare isUniqueLocalName_from.simps [simp del]

definition isUniqueLocalName :: "env \<Rightarrow> string \<Rightarrow> Node \<Rightarrow> bool" where
  "isUniqueLocalName e nm container = isUniqueLocalName_from e nm container container"

subsection \<open>\<^verbatim>\<open>makeTempVariableName\<close> (lines 2509-2530)\<close>

text \<open>The \<^verbatim>\<open>while (true)\<close> loop: one unit of fuel for each iteration.\<close>

fun makeTempVariableName_loop :: "env \<Rightarrow> nat \<Rightarrow> PrintSession \<Rightarrow> string result" where
  "makeTempVariableName_loop e 0 s = Inl OutOfFuel"
| "makeTempVariableName_loop e (Suc fuel) s =
     (let count = tempFlags s AND TempFlags_CountMask;
          s' = s\<lparr>tempFlags := tempFlags s + 1\<rparr>
      in if count \<noteq> 8 \<and> count \<noteq> 13 then
           (let nm = (if count < 26
                      then ''_'' @ [fromCharCode (CharacterCodes_a + count)]
                      else ''_'' @ decimalText (nat (count - 26)))
            in if isUniqueName e s' nm then Inr (nm, s')
               else makeTempVariableName_loop e fuel s')
         else makeTempVariableName_loop e fuel s')"

definition makeTempVariableName :: "env \<Rightarrow> nat \<Rightarrow> TempFlags \<Rightarrow> PrintSession \<Rightarrow> string result" where
  "makeTempVariableName e fuel fl s =
     (let nm = (if fl = TempFlags__i then ''_i'' else ''_n'')
      in if fl \<noteq> 0 \<and> tempFlags s AND fl = 0 \<and> isUniqueName e s nm
         then Inr (nm, s\<lparr>tempFlags := tempFlags s OR fl\<rparr>)
         else makeTempVariableName_loop e fuel s)"

subsection \<open>\<^verbatim>\<open>makeUniqueName\<close> (lines 2536-2549)\<close>

fun makeUniqueName_loop :: "env \<Rightarrow> nat \<Rightarrow> string \<Rightarrow> nat \<Rightarrow> PrintSession \<Rightarrow> string result" where
  "makeUniqueName_loop e 0 baseName i s = Inl OutOfFuel"
| "makeUniqueName_loop e (Suc fuel) baseName i s =
     (let generatedName = baseName @ decimalText i
      in if isUniqueName e s generatedName
         then Inr (generatedName,
                   s\<lparr>generatedNameSet := insert generatedName (generatedNameSet s)\<rparr>)
         else makeUniqueName_loop e fuel baseName (i + 1) s)"

text \<open>\<^verbatim>\<open>baseName.charCodeAt(baseName.length - 1)\<close> is \<^verbatim>\<open>NaN\<close> on the empty string, which
  differs from the code of the underscore.\<close>

definition makeUniqueName :: "env \<Rightarrow> nat \<Rightarrow> string \<Rightarrow> PrintSession \<Rightarrow> string result" where
  "makeUniqueName e fuel baseName s =
     makeUniqueName_loop e fuel
       (if baseName = [] \<or> last baseName \<noteq> CHR ''_'' then baseName @ ''_'' else baseName)
       1 s"

subsection \<open>The source node and the memo key (lines 2611-2634)\<close>

fun getSourceNodeForGeneratedName :: "Node \<Rightarrow> Node" where
  "getSourceNodeForGeneratedName node =
     (case original node of
        None \<Rightarrow> node
      | Some orig \<Rightarrow>
          if isIdentifier orig \<and> autoGenerateKind orig = Node \<and> nodeId orig \<noteq> nodeId node
          then orig
          else getSourceNodeForGeneratedName orig)"

declare getSourceNodeForGeneratedName.simps [simp del]

text \<open>The \<^verbatim>\<open>switch\<close> has no case for an identifier that is not generated: the function
  then returns \<^verbatim>\<open>undefined\<close>.\<close>

definition getNodeIdForGeneratedIdentifier :: "Node \<Rightarrow> NodeId option" where
  "getNodeIdForGeneratedIdentifier node =
     (case autoGenerateKind node of
        Auto \<Rightarrow> Some (getNodeId node)
      | Loop \<Rightarrow> Some (getNodeId node)
      | Unique \<Rightarrow> Some (getNodeId node)
      | Node \<Rightarrow> Some (getNodeId (getSourceNodeForGeneratedName node))
      | GIK_None \<Rightarrow> None)"

subsection \<open>Names for nodes (lines 2551-2604)\<close>

definition generateNameForImportOrExportDeclaration ::
  "env \<Rightarrow> nat \<Rightarrow> Node \<Rightarrow> PrintSession \<Rightarrow> string result" where
  "generateNameForImportOrExportDeclaration e fuel node s =
     (case getExternalModuleName (util e) node of
        None \<Rightarrow> Inl TypeError
      | Some expr \<Rightarrow>
          makeUniqueName e fuel
            (if kind expr = StringLiteral
             then escapeIdentifier (util e) (makeIdentifierFromModuleName (util e) (nodeText expr))
             else ''module'')
            s)"

definition generateNameForExportDefault :: "env \<Rightarrow> nat \<Rightarrow> PrintSession \<Rightarrow> string result" where
  "generateNameForExportDefault e fuel s = makeUniqueName e fuel ''default'' s"

definition generateNameForClassExpression :: "env \<Rightarrow> nat \<Rightarrow> PrintSession \<Rightarrow> string result" where
  "generateNameForClassExpression e fuel s = makeUniqueName e fuel ''class'' s"

text \<open>The memo test \<^verbatim>\<open>nodeToGeneratedName[id] || ...\<close>: an absent entry and the empty
  string are both falsy.\<close>

definition memoized :: "PrintSession \<Rightarrow> NodeId \<Rightarrow> string option" where
  "memoized s i =
     (case nodeToGeneratedName s i of
        None \<Rightarrow> None
      | Some t \<Rightarrow> if t = [] then None else Some t)"

text \<open>\<^verbatim>\<open>getTextOfNode\<close> (line 2439), \<^verbatim>\<open>getGeneratedIdentifier\<close> (line 2606),
  \<^verbatim>\<open>generateIdentifier\<close> (line 2593), \<^verbatim>\<open>generateNameForNode\<close> (line 2572) and
  \<^verbatim>\<open>generateNameForModuleOrEnum\<close> (line 2551) call one another; each call takes one unit
  of fuel.\<close>

function (sequential) getTextOfNode :: "env \<Rightarrow> nat \<Rightarrow> Node \<Rightarrow> bool option \<Rightarrow> PrintSession \<Rightarrow> string result"
and getGeneratedIdentifier :: "env \<Rightarrow> nat \<Rightarrow> Node \<Rightarrow> PrintSession \<Rightarrow> string result"
and generateIdentifier :: "env \<Rightarrow> nat \<Rightarrow> Node \<Rightarrow> PrintSession \<Rightarrow> string result"
and generateNameForNode :: "env \<Rightarrow> nat \<Rightarrow> Node \<Rightarrow> PrintSession \<Rightarrow> string result"
and generateNameForModuleOrEnum :: "env \<Rightarrow> nat \<Rightarrow> Node \<Rightarrow> PrintSession \<Rightarrow> string result"
where
  "getTextOfNode e 0 node includeTrivia s = Inl OutOfFuel"
| "getTextOfNode e (Suc fuel) node includeTrivia s =
     (if isGeneratedIdentifier node then getGeneratedIdentifier e fuel node s
      else if isIdentifier node \<and> (nodeIsSynthesized (util e) node \<or> \<not> hasParent node)
      then Inr (unescapeIdentifier (util e) (nodeText node), s)
      else if kind node = StringLiteral \<and> textSourceNode node \<noteq> None
      then getTextOfNode e fuel (the (textSourceNode node)) includeTrivia s
      else if isLiteralExpression node \<and> (nodeIsSynthesized (util e) node \<or> \<not> hasParent node)
      then Inr (nodeText node, s)
      else Inr (getSourceTextOfNodeFromSourceFile (util e) (currentSourceFile s) node includeTrivia, s))"
| "getGeneratedIdentifier e 0 node s = Inl OutOfFuel"
| "getGeneratedIdentifier e (Suc fuel) node s =
     (case getNodeIdForGeneratedIdentifier node of
        None \<Rightarrow> Inl TypeError
      | Some i \<Rightarrow>
          (case memoized s i of
             Some t \<Rightarrow> Inr (t, s)
           | None \<Rightarrow>
               (case generateIdentifier e fuel node s of
                  Inl err \<Rightarrow> Inl err
                | Inr (nm, s') \<Rightarrow>
                    Inr (unescapeIdentifier (util e) nm,
                         s'\<lparr>nodeToGeneratedName :=
                              (nodeToGeneratedName s')(i \<mapsto> unescapeIdentifier (util e) nm)\<rparr>))))"
| "generateIdentifier e 0 node s = Inl OutOfFuel"
| "generateIdentifier e (Suc fuel) node s =
     (case autoGenerateKind node of
        Auto \<Rightarrow> makeTempVariableName e fuel TempFlags_Auto s
      | Loop \<Rightarrow> makeTempVariableName e fuel TempFlags__i s
      | Unique \<Rightarrow> makeUniqueName e fuel (nodeText node) s
      | Node \<Rightarrow> generateNameForNode e fuel (getSourceNodeForGeneratedName node) s
      | GIK_None \<Rightarrow> Inl TypeError)"
| "generateNameForNode e 0 node s = Inl OutOfFuel"
| "generateNameForNode e (Suc fuel) node s =
     (if kind node = Identifier then
          (case getTextOfNode e fuel node None s of
             Inl err \<Rightarrow> Inl err
           | Inr (t, s') \<Rightarrow> makeUniqueName e fuel t s')
      else if kind node = ModuleDeclaration \<or> kind node = EnumDeclaration
      then generateNameForModuleOrEnum e fuel node s
      else if kind node = ImportDeclaration \<or> kind node = ExportDeclaration
      then generateNameForImportOrExportDeclaration e fuel node s
      else if kind node = FunctionDeclaration \<or> kind node = ClassDeclaration \<or> kind node = ExportAssignment
      then generateNameForExportDefault e fuel s
      else if kind node = ClassExpression
      then generateNameForClassExpression e fuel s
      else makeTempVariableName e fuel TempFlags_Auto s)"
| "generateNameForModuleOrEnum e 0 node s = Inl OutOfFuel"
| "generateNameForModuleOrEnum e (Suc fuel) node s =
     (case name node of
        None \<Rightarrow> Inl TypeError
      | Some nm \<Rightarrow>
          (case getTextOfNode e fuel nm None s of
             Inl err \<Rightarrow> Inl err
           | Inr (t, s') \<Rightarrow>
               if isUniqueLocalName e t node then Inr (t, s') else makeUniqueName e fuel t s'))"

  by pat_completeness auto

termination
  by (relation "measure (\<lambda>x. case x of
         Inl (Inl (e, n, r)) \<Rightarrow> n
       | Inl (Inr (e, n, r)) \<Rightarrow> n
       | Inr (Inl (e, n, r)) \<Rightarrow> n
       | Inr (Inr (Inl (e, n, r))) \<Rightarrow> n
       | Inr (Inr (Inr (e, n, r))) \<Rightarrow> n)") simp_all

subsection \<open>The source node, in the words of the claim\<close>

text \<open>
  The chain of \<^verbatim>\<open>original\<close> back-references that starts at a node, and the node at which
  the claim lets the chain end: the first node after the start that is an identifier with
  the Node tag and an \<^verbatim>\<open>id\<close> other than the one of the node before it, and the last node
  of the chain when there is none. This is not taken from the code;
  \<open>getSourceNodeForGeneratedName\<close> is compared with it.
\<close>

fun originalChain :: "Node \<Rightarrow> Node list" where
  "originalChain node =
     node # (case original node of None \<Rightarrow> [] | Some orig \<Rightarrow> originalChain orig)"

declare originalChain.simps [simp del]

fun stopAtDistinctNodeIdentifier :: "Node \<Rightarrow> Node list \<Rightarrow> Node" where
  "stopAtDistinctNodeIdentifier previous [] = previous"
| "stopAtDistinctNodeIdentifier previous (node # rest) =
     (if isIdentifier node \<and> autoGenerateKind node = Node \<and> nodeId node \<noteq> nodeId previous
      then node
      else stopAtDistinctNodeIdentifier node rest)"

definition sourceNodeOfChain :: "Node \<Rightarrow> Node" where
  "sourceNodeOfChain node = stopAtDistinctNodeIdentifier node (tl (originalChain node))"

subsection \<open>The temp name of a count\<close>


subsection \<open>The name requests of a file pass\<close>

text \<open>
  What a file pass does to the state of the name resolver, as the tree of its requests:
  a reference to a generated identifier (\<^verbatim>\<open>getGeneratedIdentifier\<close>, reached from
  \<^verbatim>\<open>emitIdentifier\<close> through \<^verbatim>\<open>getTextOfNode\<close>), and a nested temp scope: the emitters of
  function bodies, class members, enum bodies, module blocks and source files save
  \<^verbatim>\<open>tempFlags\<close>, set it to 0, emit their children and restore it (lines 1418-1430,
  1533-1544, 1575-1581, 1605-1617, 1897-1903). \<open>resolveUses\<close> returns the resolved texts in
  request order.
\<close>

datatype nameUse = Reference Node | TempScope "nameUse list"

fun resolveUse :: "env \<Rightarrow> nat \<Rightarrow> nameUse \<Rightarrow> PrintSession \<Rightarrow> string list result"
and resolveUses :: "env \<Rightarrow> nat \<Rightarrow> nameUse list \<Rightarrow> PrintSession \<Rightarrow> string list result"
where
  "resolveUse e fuel (Reference node) s =
     (case getGeneratedIdentifier e fuel node s of
        Inl err \<Rightarrow> Inl err
      | Inr (t, s') \<Rightarrow> Inr ([t], s'))"
| "resolveUse e fuel (TempScope uses) s =
     (case resolveUses e fuel uses (s\<lparr>tempFlags := 0\<rparr>) of
        Inl err \<Rightarrow> Inl err
      | Inr (ts, s') \<Rightarrow> Inr (ts, s'\<lparr>tempFlags := tempFlags s\<rparr>))"
| "resolveUses e fuel [] s = Inr ([], s)"
| "resolveUses e fuel (u # us) s =
     (case resolveUse e fuel u s of
        Inl err \<Rightarrow> Inl err
      | Inr (ts, s') \<Rightarrow>
          (case resolveUses e fuel us s' of
             Inl err \<Rightarrow> Inl err
           | Inr (ts', s'') \<Rightarrow> Inr (ts @ ts', s'')))"

text \<open>What every step of a pass keeps: the truthy entries of the memo table, the
  recorded names, and the identifier table and source file of the pass.\<close>

definition namesGrow :: "PrintSession \<Rightarrow> PrintSession \<Rightarrow> bool" where
  "namesGrow s s' \<longleftrightarrow>
     (\<forall>i t. memoized s i = Some t \<longrightarrow> memoized s' i = Some t) \<and>
     generatedNameSet s \<subseteq> generatedNameSet s' \<and>
     currentFileIdentifiers s' = currentFileIdentifiers s \<and>
     currentSourceFile s' = currentSourceFile s"

section \<open>The emitters\<close>

subsection \<open>Calls on the writer\<close>

text \<open>\<open>writeText\<close> is the writer's \<^verbatim>\<open>write\<close>.\<close>

definition emitEvents :: "event list \<Rightarrow> PrintSession \<Rightarrow> PrintSession" where
  "emitEvents evs s = s\<lparr>trace := trace s @ evs\<rparr>"

definition writeText :: "string \<Rightarrow> PrintSession \<Rightarrow> unit result" where
  "writeText t s = Inr ((), emitEvents [Write t] s)"

definition writeLine :: "PrintSession \<Rightarrow> unit result" where
  "writeLine s = Inr ((), emitEvents [WriteLine] s)"

definition increaseIndent :: "PrintSession \<Rightarrow> unit result" where
  "increaseIndent s = Inr ((), emitEvents [IncreaseIndent] s)"

definition decreaseIndent :: "PrintSession \<Rightarrow> unit result" where
  "decreaseIndent s = Inr ((), emitEvents [DecreaseIndent] s)"

text \<open>A sequence of statements, each run in the state the one before has left; an error
  ends the sequence.\<close>

fun runAll :: "(PrintSession \<Rightarrow> unit result) list \<Rightarrow> PrintSession \<Rightarrow> unit result" where
  "runAll [] s = Inr ((), s)"
| "runAll (act # acts) s =
     (case act s of
        Inl err \<Rightarrow> Inl err
      | Inr (u, s') \<Rightarrow> runAll acts s')"

text \<open>\<^verbatim>\<open>increaseIndentIf\<close>, \<^verbatim>\<open>decreaseIndentIf\<close> (lines 2308-2329).\<close>

definition increaseIndentIf :: "bool \<Rightarrow> string option \<Rightarrow> PrintSession \<Rightarrow> unit result" where
  "increaseIndentIf v valueToWriteWhenNotIndenting s =
     (if v then runAll [increaseIndent, writeLine] s
      else (case valueToWriteWhenNotIndenting of
              None \<Rightarrow> Inr ((), s)
            | Some t \<Rightarrow> if t \<noteq> [] then writeText t s else Inr ((), s)))"

definition decreaseIndentIf :: "bool \<Rightarrow> bool \<Rightarrow> PrintSession \<Rightarrow> unit result" where
  "decreaseIndentIf value1 value2 s =
     runAll [(\<lambda>s. if value1 then decreaseIndent s else Inr ((), s)),
             (\<lambda>s. if value2 then decreaseIndent s else Inr ((), s))] s"

subsection \<open>The dispatch wrappers (lines 285-320)\<close>

definition shouldSkipCommentsForNode :: "env \<Rightarrow> PrintSession \<Rightarrow> Node \<Rightarrow> bool" where
  "shouldSkipCommentsForNode e s node \<longleftrightarrow>
     isNotEmittedStatement (util e) node \<or> NoComments \<in> getNodeEmitFlags s node"

definition shouldIgnoreSourceMapForNode :: "env \<Rightarrow> PrintSession \<Rightarrow> Node \<Rightarrow> bool" where
  "shouldIgnoreSourceMapForNode e s node \<longleftrightarrow>
     isNotEmittedOrPartiallyEmittedNode (util e) node \<or> NoSourceMap \<in> getNodeEmitFlags s node"

definition shouldIgnoreSourceMapForChildren :: "env \<Rightarrow> PrintSession \<Rightarrow> Node \<Rightarrow> bool" where
  "shouldIgnoreSourceMapForChildren e s node \<longleftrightarrow> NoNestedSourceMaps \<in> getNodeEmitFlags s node"

definition emitNodeWithNotificationOption ::
  "env \<Rightarrow> Node option \<Rightarrow> (Node option \<Rightarrow> PrintSession \<Rightarrow> unit result) \<Rightarrow> PrintSession \<Rightarrow> unit result"
where
  "emitNodeWithNotificationOption e node emitCallback s =
     (case node of
        None \<Rightarrow> Inr ((), s)
      | Some n \<Rightarrow>
          if isEmitNotificationEnabled (transformContext e) n
          then onEmitNode (transformContext e) n emitCallback s
          else emitCallback (Some n) s)"

definition emitNodeWithWorker ::
  "env \<Rightarrow> Node option \<Rightarrow> (Node \<Rightarrow> PrintSession \<Rightarrow> unit result) \<Rightarrow> PrintSession \<Rightarrow> unit result"
where
  "emitNodeWithWorker e node emitWorker s =
     (case node of
        None \<Rightarrow> Inr ((), s)
      | Some n \<Rightarrow>
          (let leadingComments = getLeadingComments (comments e) n (shouldSkipCommentsForNode e s);
               trailingComments = getTrailingComments (comments e) n (shouldSkipCommentsForNode e s);
               s1 = emitEvents
                      [EmitLeadingComments n leadingComments,
                       EmitStart n (shouldIgnoreSourceMapForNode e s n)
                         (shouldIgnoreSourceMapForChildren e s n)] s
           in case emitWorker n s1 of
                Inl err \<Rightarrow> Inl err
              | Inr (u, s2) \<Rightarrow>
                  Inr ((), emitEvents
                             [EmitEnd n (shouldIgnoreSourceMapForNode e s2 n)
                                (shouldIgnoreSourceMapForChildren e s2 n),
                              EmitTrailingComments n trailingComments] s2)))"

subsection \<open>Texts of literals and constant values (lines 2456-2478)\<close>

text \<open>\<^verbatim>\<open>getLiteralTextOfNode\<close> follows \<^verbatim>\<open>textSourceNode\<close>; one unit of fuel for each call.\<close>

fun getLiteralTextOfNode :: "env \<Rightarrow> nat \<Rightarrow> Node \<Rightarrow> PrintSession \<Rightarrow> string result" where
  "getLiteralTextOfNode e 0 node s = Inl OutOfFuel"
| "getLiteralTextOfNode e (Suc fuel) node s =
     (case (if kind node = StringLiteral then textSourceNode node else None) of
        Some textSource \<Rightarrow>
          if isIdentifier textSource then
            (case getTextOfNode e fuel textSource None s of
               Inl err \<Rightarrow> Inl err
             | Inr (t, s') \<Rightarrow>
                 Inr ([CHR 0x22] @ escapeNonAsciiCharacters (util e) (escapeString (util e) t)
                        @ [CHR 0x22], s'))
          else getLiteralTextOfNode e fuel textSource s
      | None \<Rightarrow> Inr (getLiteralText (util e) node (currentSourceFile s) (languageVersion e), s))"

definition tryGetConstEnumValue :: "env \<Rightarrow> Node \<Rightarrow> number option" where
  "tryGetConstEnumValue e node =
     (if isolatedModules (compilerOptions e) then None
      else if isPropertyAccessExpression node \<or> isElementAccessExpression node
      then getConstantValue (resolver e) node
      else None)"

text \<open>\<^verbatim>\<open>tryEmitConstantValue\<close> (lines 2093-2108).\<close>

definition tryEmitConstantValue :: "env \<Rightarrow> nat \<Rightarrow> Node \<Rightarrow> PrintSession \<Rightarrow> bool result" where
  "tryEmitConstantValue e fuel node s =
     (case tryGetConstEnumValue e node of
        None \<Rightarrow> Inr (False, s)
      | Some constantValue \<Rightarrow>
          (let s1 = emitEvents [Write (numberToString (util e) constantValue)] s
           in if \<not> removeComments (compilerOptions e) then
                (if isPropertyAccessExpression node
                 then Inr (True,
                        emitEvents
                          [Write ('' /* '' @ declarationNameToString (util e) (name node) @ '' */'')] s1)
                 else (case argumentExpression node of
                         None \<Rightarrow> Inl TypeError
                       | Some argument \<Rightarrow>
                           (case getTextOfNode e fuel argument None s1 of
                              Inl err \<Rightarrow> Inl err
                            | Inr (propertyName, s2) \<Rightarrow>
                                Inr (True,
                                  emitEvents [Write ('' /* '' @ propertyName @ '' */'')] s2))))
              else Inr (True, s1)))"

subsection \<open>Indentation and the second period (lines 1001-1013, 2415-2437)\<close>

lemma size_expression [termination_simp]:
  "expression n = Some m \<Longrightarrow> size m < size n"
  by (cases n) simp

text \<open>\<^verbatim>\<open>skipSynthesizedParentheses\<close>; reading \<^verbatim>\<open>kind\<close> of an absent expression is a type
  error.\<close>

fun skipSynthesizedParentheses :: "env \<Rightarrow> Node \<Rightarrow> error + Node" where
  "skipSynthesizedParentheses e node =
     (if kind node = ParenthesizedExpression \<and> nodeIsSynthesized (util e) node
      then (case expression node of
              None \<Rightarrow> Inl TypeError
            | Some inner \<Rightarrow> skipSynthesizedParentheses e inner)
      else Inr node)"

declare skipSynthesizedParentheses.simps [simp del]

definition needsIndentation ::
  "env \<Rightarrow> PrintSession \<Rightarrow> Node option \<Rightarrow> Node option \<Rightarrow> Node option \<Rightarrow> error + bool" where
  "needsIndentation e s parent node1 node2 =
     (case (parent, node1, node2) of
        (Some p, Some n1, Some n2) \<Rightarrow>
          (case (skipSynthesizedParentheses e p, skipSynthesizedParentheses e n1,
                 skipSynthesizedParentheses e n2) of
             (Inr p', Inr n1', Inr n2') \<Rightarrow>
               if startsOnNewLine n2' = Some True then Inr True
               else Inr (\<not> nodeIsSynthesized (util e) p'
                         \<and> \<not> nodeIsSynthesized (util e) n1'
                         \<and> \<not> nodeIsSynthesized (util e) n2'
                         \<and> \<not> rangeEndIsOnSameLineAsRangeStart (util e) n1' n2' (currentSourceFile s))
           | _ \<Rightarrow> Inl TypeError)
      | _ \<Rightarrow> Inl TypeError)"

definition needsDotDotForPropertyAccess :: "env \<Rightarrow> nat \<Rightarrow> Node \<Rightarrow> PrintSession \<Rightarrow> bool result" where
  "needsDotDotForPropertyAccess e fuel expr s =
     (if kind expr = NumericLiteral then
        (case getLiteralTextOfNode e fuel expr s of
           Inl err \<Rightarrow> Inl err
         | Inr (t, s') \<Rightarrow> Inr (CHR ''.'' \<notin> set t, s'))
      else
        (let constantValue = tryGetConstEnumValue e expr
         in Inr (isFinite constantValue \<and>
                 (case constantValue of None \<Rightarrow> False | Some v \<Rightarrow> Math_floor v = v), s)))"

subsection \<open>\<^verbatim>\<open>writeLines\<close> (lines 2026-2037)\<close>

text \<open>\<^verbatim>\<open>text.split(/\r\n|\r|\n/g)\<close>.\<close>

definition isLineBreakChar :: "char \<Rightarrow> bool" where
  "isLineBreakChar c \<longleftrightarrow> c = CHR 0x0D \<or> c = CHR 0x0A"

fun consToFirst :: "char \<Rightarrow> string list \<Rightarrow> string list" where
  "consToFirst c [] = [[c]]"
| "consToFirst c (l # ls) = (c # l) # ls"

fun splitLines :: "string \<Rightarrow> string list" where
  "splitLines [] = [[]]"
| "splitLines [c] = (if isLineBreakChar c then [[], []] else [[c]])"
| "splitLines (c # d # cs) =
     (if c = CHR 0x0D \<and> d = CHR 0x0A then [] # splitLines cs
      else if isLineBreakChar c then [] # splitLines (d # cs)
      else consToFirst c (splitLines (d # cs)))"

text \<open>The loop of \<^verbatim>\<open>writeLines\<close> from index \<open>i\<close> on.\<close>

fun writeLines_from :: "nat \<Rightarrow> string list \<Rightarrow> PrintSession \<Rightarrow> PrintSession" where
  "writeLines_from i [] s = s"
| "writeLines_from i (line # rest) s =
     writeLines_from (i + 1) rest
       (if line \<noteq> [] then emitEvents ((if 0 < i then [WriteLine] else []) @ [Write line]) s
        else s)"

text \<open>The call is kept in the trace, then the loop runs.\<close>

definition writeLines :: "string \<Rightarrow> PrintSession \<Rightarrow> PrintSession" where
  "writeLines t s = writeLines_from 0 (splitLines t) (emitEvents [WriteLines t] s)"

subsection \<open>Identifiers and literals (lines 682-704)\<close>

definition umdHelper :: string where
  \<open>umdHelper = ''\<newline>(function (dependencies, factory) {\<newline>    if (typeof module === 'object' && typeof module.exports === 'object') {\<newline>        var v = factory(require, exports); if (v !== undefined) module.exports = v;\<newline>    }\<newline>    else if (typeof define === 'function' && define.amd) {\<newline>        define(dependencies, factory);\<newline>    }\<newline>})''\<close>

definition emitIdentifier :: "env \<Rightarrow> nat \<Rightarrow> Node \<Rightarrow> PrintSession \<Rightarrow> unit result" where
  "emitIdentifier e fuel node s =
     (if UMDDefine \<in> getNodeEmitFlags s node then Inr ((), writeLines umdHelper s)
      else (case getTextOfNode e fuel node (Some False) s of
              Inl err \<Rightarrow> Inl err
            | Inr (t, s') \<Rightarrow> writeText t s'))"

text \<open>None of the kinds above is a template literal kind.\<close>

definition isTemplateLiteralKind :: "SyntaxKind \<Rightarrow> bool" where
  "isTemplateLiteralKind k = False"

definition emitLiteral :: "env \<Rightarrow> nat \<Rightarrow> Node \<Rightarrow> PrintSession \<Rightarrow> unit result" where
  "emitLiteral e fuel node s =
     (case getLiteralTextOfNode e fuel node s of
        Inl err \<Rightarrow> Inl err
      | Inr (t, s') \<Rightarrow>
          if (sourceMap (compilerOptions e) \<or> inlineSourceMap (compilerOptions e))
             \<and> (kind node = StringLiteral \<or> isTemplateLiteralKind (kind node))
          then Inr ((), emitEvents [WriteLiteral t] s')
          else writeText t s')"

subsection \<open>\<^verbatim>\<open>const enum ListFormat\<close> (lines 2668-2741)\<close>

type_synonym ListFormat = nat

definition ListFormat_None :: ListFormat where "ListFormat_None = 0"
definition ListFormat_SingleLine :: ListFormat where "ListFormat_SingleLine = 0"
definition ListFormat_MultiLine :: ListFormat where "ListFormat_MultiLine = push_bit 0 1"
definition ListFormat_PreserveLines :: ListFormat where "ListFormat_PreserveLines = push_bit 1 1"
definition ListFormat_LinesMask :: ListFormat where
  "ListFormat_LinesMask = ListFormat_SingleLine OR ListFormat_MultiLine OR ListFormat_PreserveLines"
definition ListFormat_NotDelimited :: ListFormat where "ListFormat_NotDelimited = 0"
definition ListFormat_BarDelimited :: ListFormat where "ListFormat_BarDelimited = push_bit 2 1"
definition ListFormat_AmpersandDelimited :: ListFormat where
  "ListFormat_AmpersandDelimited = push_bit 3 1"
definition ListFormat_CommaDelimited :: ListFormat where "ListFormat_CommaDelimited = push_bit 4 1"
definition ListFormat_DelimitersMask :: ListFormat where
  "ListFormat_DelimitersMask =
     ListFormat_BarDelimited OR ListFormat_AmpersandDelimited OR ListFormat_CommaDelimited"
definition ListFormat_AllowTrailingComma :: ListFormat where
  "ListFormat_AllowTrailingComma = push_bit 5 1"
definition ListFormat_Indented :: ListFormat where "ListFormat_Indented = push_bit 6 1"
definition ListFormat_SpaceBetweenBraces :: ListFormat where
  "ListFormat_SpaceBetweenBraces = push_bit 7 1"
definition ListFormat_SpaceBetweenSiblings :: ListFormat where
  "ListFormat_SpaceBetweenSiblings = push_bit 8 1"
definition ListFormat_Braces :: ListFormat where "ListFormat_Braces = push_bit 9 1"
definition ListFormat_Parenthesis :: ListFormat where "ListFormat_Parenthesis = push_bit 10 1"
definition ListFormat_AngleBrackets :: ListFormat where "ListFormat_AngleBrackets = push_bit 11 1"
definition ListFormat_SquareBrackets :: ListFormat where "ListFormat_SquareBrackets = push_bit 12 1"
definition ListFormat_BracketsMask :: ListFormat where
  "ListFormat_BracketsMask =
     ListFormat_Braces OR ListFormat_Parenthesis OR ListFormat_AngleBrackets
       OR ListFormat_SquareBrackets"
definition ListFormat_OptionalIfUndefined :: ListFormat where
  "ListFormat_OptionalIfUndefined = push_bit 13 1"
definition ListFormat_OptionalIfEmpty :: ListFormat where
  "ListFormat_OptionalIfEmpty = push_bit 14 1"
definition ListFormat_Optional :: ListFormat where
  "ListFormat_Optional = ListFormat_OptionalIfUndefined OR ListFormat_OptionalIfEmpty"
definition ListFormat_PreferNewLine :: ListFormat where "ListFormat_PreferNewLine = push_bit 15 1"
definition ListFormat_NoTrailingNewLine :: ListFormat where
  "ListFormat_NoTrailingNewLine = push_bit 16 1"

text \<open>The precomputed formats that the emitters of this development use.\<close>

definition ListFormat_Modifiers :: ListFormat where
  "ListFormat_Modifiers = ListFormat_SingleLine OR ListFormat_SpaceBetweenSiblings"
definition ListFormat_SingleLineBlockStatements :: ListFormat where
  "ListFormat_SingleLineBlockStatements =
     ListFormat_SpaceBetweenBraces OR ListFormat_SpaceBetweenSiblings OR ListFormat_SingleLine"
definition ListFormat_MultiLineBlockStatements :: ListFormat where
  "ListFormat_MultiLineBlockStatements = ListFormat_Indented OR ListFormat_MultiLine"
definition ListFormat_SingleLineFunctionBodyStatements :: ListFormat where
  "ListFormat_SingleLineFunctionBodyStatements =
     ListFormat_SingleLine OR ListFormat_SpaceBetweenSiblings OR ListFormat_SpaceBetweenBraces"
definition ListFormat_MultiLineFunctionBodyStatements :: ListFormat where
  "ListFormat_MultiLineFunctionBodyStatements = ListFormat_MultiLine"
definition ListFormat_Decorators :: ListFormat where
  "ListFormat_Decorators = ListFormat_MultiLine OR ListFormat_Optional"
definition ListFormat_TypeParameters :: ListFormat where
  "ListFormat_TypeParameters =
     ListFormat_CommaDelimited OR ListFormat_SpaceBetweenSiblings OR ListFormat_SingleLine
       OR ListFormat_Indented OR ListFormat_AngleBrackets OR ListFormat_Optional"
definition ListFormat_Parameters :: ListFormat where
  "ListFormat_Parameters =
     ListFormat_CommaDelimited OR ListFormat_SpaceBetweenSiblings OR ListFormat_SingleLine
       OR ListFormat_Indented OR ListFormat_Parenthesis"

definition ListFormat_CallExpressionArguments :: ListFormat where
  "ListFormat_CallExpressionArguments =
     ListFormat_CommaDelimited OR ListFormat_SpaceBetweenSiblings OR ListFormat_SingleLine
       OR ListFormat_Parenthesis"
definition ListFormat_ClassMembers :: ListFormat where
  "ListFormat_ClassMembers = ListFormat_Indented OR ListFormat_MultiLine"
definition ListFormat_CaseOrDefaultClauseStatements :: ListFormat where
  "ListFormat_CaseOrDefaultClauseStatements =
     ListFormat_Indented OR ListFormat_MultiLine OR ListFormat_NoTrailingNewLine
       OR ListFormat_OptionalIfEmpty"

text \<open>\<^verbatim>\<open>format & F\<close> as a condition.\<close>

definition hasFormat :: "ListFormat \<Rightarrow> ListFormat \<Rightarrow> bool" where
  "hasFormat format f \<longleftrightarrow> format AND f \<noteq> 0"

subsection \<open>Delimiters and brackets (lines 2637-2665)\<close>

text \<open>The two tables are arrays indexed by a format value; an index with no entry gives
  \<^verbatim>\<open>undefined\<close>.\<close>

definition delimiters :: "ListFormat \<rightharpoonup> string" where
  "delimiters =
     [ListFormat_None \<mapsto> '''',
      ListFormat_CommaDelimited \<mapsto> '','',
      ListFormat_BarDelimited \<mapsto> '' |'',
      ListFormat_AmpersandDelimited \<mapsto> '' &'']"

definition getDelimiter :: "ListFormat \<Rightarrow> string option" where
  "getDelimiter format = delimiters (format AND ListFormat_DelimitersMask)"

definition brackets :: "ListFormat \<rightharpoonup> string \<times> string" where
  "brackets =
     [ListFormat_Braces \<mapsto> (''{'', ''}''),
      ListFormat_Parenthesis \<mapsto> (''('', '')''),
      ListFormat_AngleBrackets \<mapsto> (''<'', ''>''),
      ListFormat_SquareBrackets \<mapsto> (''['', '']'')]"

definition getOpeningBracket :: "ListFormat \<Rightarrow> error + string" where
  "getOpeningBracket format =
     (case brackets (format AND ListFormat_BracketsMask) of
        None \<Rightarrow> Inl TypeError
      | Some b \<Rightarrow> Inr (fst b))"

definition getClosingBracket :: "ListFormat \<Rightarrow> error + string" where
  "getClosingBracket format =
     (case brackets (format AND ListFormat_BracketsMask) of
        None \<Rightarrow> Inl TypeError
      | Some b \<Rightarrow> Inr (snd b))"

subsection \<open>\<^verbatim>\<open>emitNodeList\<close> (lines 2163-2272, 2331-2413)\<close>

record NodeArray =
  elements :: "Node list"
  hasTrailingComma :: bool

text \<open>\<^verbatim>\<open>children[i]\<close>, \<^verbatim>\<open>undefined\<close> out of range.\<close>

definition elementAt :: "NodeArray \<Rightarrow> nat \<Rightarrow> Node option" where
  "elementAt children i = (if i < length (elements children) then Some (elements children ! i) else None)"

definition lastOrUndefined :: "NodeArray \<Rightarrow> Node option" where
  "lastOrUndefined children =
     (if elements children = [] then None else Some (last (elements children)))"

definition writeOptional :: "string option \<Rightarrow> PrintSession \<Rightarrow> unit result" where
  "writeOptional t s =
     (case t of
        None \<Rightarrow> Inr ((), emitEvents [WriteUndefined] s)
      | Some t' \<Rightarrow> writeText t' s)"

definition writeBracket :: "error + string \<Rightarrow> PrintSession \<Rightarrow> unit result" where
  "writeBracket b s = (case b of Inl err \<Rightarrow> Inl err | Inr t \<Rightarrow> writeText t s)"

definition synthesizedNodeStartsOnNewLine :: "env \<Rightarrow> Node \<Rightarrow> ListFormat \<Rightarrow> bool" where
  "synthesizedNodeStartsOnNewLine e node format =
     (if nodeIsSynthesized (util e) node then
        (case startsOnNewLine node of
           None \<Rightarrow> hasFormat format ListFormat_PreferNewLine
         | Some b \<Rightarrow> b)
      else hasFormat format ListFormat_PreferNewLine)"

definition shouldWriteLeadingLineTerminator ::
  "env \<Rightarrow> PrintSession \<Rightarrow> Node \<Rightarrow> NodeArray \<Rightarrow> ListFormat \<Rightarrow> bool" where
  "shouldWriteLeadingLineTerminator e s parentNode children format =
     (if hasFormat format ListFormat_MultiLine then True
      else if hasFormat format ListFormat_PreserveLines then
        (if hasFormat format ListFormat_PreferNewLine then True
         else (case elementAt children 0 of
                 None \<Rightarrow> \<not> rangeIsOnSingleLine (util e) parentNode (currentSourceFile s)
               | Some firstChild \<Rightarrow>
                   if positionIsSynthesized (util e) (pos parentNode)
                      \<or> nodeIsSynthesized (util e) firstChild
                   then synthesizedNodeStartsOnNewLine e firstChild format
                   else \<not> rangeStartPositionsAreOnSameLine (util e) parentNode firstChild
                            (currentSourceFile s)))
      else False)"

text \<open>In single-line mode \<^verbatim>\<open>nextNode.startsOnNewLine\<close> is read, a type error on an absent
  node.\<close>

definition shouldWriteSeparatingLineTerminator ::
  "env \<Rightarrow> PrintSession \<Rightarrow> Node option \<Rightarrow> Node option \<Rightarrow> ListFormat \<Rightarrow> error + bool" where
  "shouldWriteSeparatingLineTerminator e s previousNode nextNode format =
     (if hasFormat format ListFormat_MultiLine then Inr True
      else if hasFormat format ListFormat_PreserveLines then
        (case (previousNode, nextNode) of
           (Some p, Some n) \<Rightarrow>
             if nodeIsSynthesized (util e) p \<or> nodeIsSynthesized (util e) n
             then Inr (synthesizedNodeStartsOnNewLine e p format
                       \<or> synthesizedNodeStartsOnNewLine e n format)
             else Inr (\<not> rangeEndIsOnSameLineAsRangeStart (util e) p n (currentSourceFile s))
         | _ \<Rightarrow> Inr False)
      else (case nextNode of
              None \<Rightarrow> Inl TypeError
            | Some n \<Rightarrow> Inr (startsOnNewLine n = Some True)))"

definition shouldWriteClosingLineTerminator ::
  "env \<Rightarrow> PrintSession \<Rightarrow> Node \<Rightarrow> NodeArray \<Rightarrow> ListFormat \<Rightarrow> bool" where
  "shouldWriteClosingLineTerminator e s parentNode children format =
     (if hasFormat format ListFormat_MultiLine
      then \<not> hasFormat format ListFormat_NoTrailingNewLine
      else if hasFormat format ListFormat_PreserveLines then
        (if hasFormat format ListFormat_PreferNewLine then True
         else (case lastOrUndefined children of
                 None \<Rightarrow> \<not> rangeIsOnSingleLine (util e) parentNode (currentSourceFile s)
               | Some lastChild \<Rightarrow>
                   if positionIsSynthesized (util e) (pos parentNode)
                      \<or> nodeIsSynthesized (util e) lastChild
                   then synthesizedNodeStartsOnNewLine e lastChild format
                   else \<not> rangeEndPositionsAreOnSameLine (util e) parentNode lastChild
                            (currentSourceFile s)))
      else False)"

text \<open>One iteration of the \<^verbatim>\<open>for\<close> loop over the children, and the iterations that
  remain: \<open>remaining\<close> counts them, \<open>i\<close> is the loop index.\<close>

fun emitNodeList_loop ::
  "env \<Rightarrow> (Node option \<Rightarrow> PrintSession \<Rightarrow> unit result) \<Rightarrow> NodeArray \<Rightarrow> ListFormat \<Rightarrow> nat \<Rightarrow>
   nat \<Rightarrow> nat \<Rightarrow> Node option \<Rightarrow> bool \<Rightarrow> PrintSession \<Rightarrow> unit result" where
  "emitNodeList_loop e emitCallback children format start 0 i previousSibling
     shouldEmitInterveningComments s = Inr ((), s)"
| "emitNodeList_loop e emitCallback children format start (Suc remaining) i previousSibling
     shouldEmitInterveningComments s =
     (let child = elementAt children (start + i) in
      case (case previousSibling of
              None \<Rightarrow> Inr ((False, shouldEmitInterveningComments), s)
            | Some previous \<Rightarrow>
                (case writeOptional (getDelimiter format) s of
                   Inl err \<Rightarrow> Inl err
                 | Inr (u, s1) \<Rightarrow>
                     (case shouldWriteSeparatingLineTerminator e s1 previousSibling child format of
                        Inl err \<Rightarrow> Inl err
                      | Inr True \<Rightarrow>
                          if format AND (ListFormat_LinesMask OR ListFormat_Indented)
                               = ListFormat_SingleLine
                          then Inr ((True, False), emitEvents [IncreaseIndent, WriteLine] s1)
                          else Inr ((False, False), emitEvents [WriteLine] s1)
                      | Inr False \<Rightarrow>
                          if hasFormat format ListFormat_SpaceBetweenSiblings
                          then Inr ((False, shouldEmitInterveningComments),
                                    emitEvents [Write '' ''] s1)
                          else Inr ((False, shouldEmitInterveningComments), s1)))) of
        Inl err \<Rightarrow> Inl err
      | Inr ((shouldDecreaseIndentAfterEmit, emitComments), s2) \<Rightarrow>
          (case (if emitComments then
                   (case child of
                      None \<Rightarrow> Inl TypeError
                    | Some c \<Rightarrow>
                        Inr ((), emitEvents
                          [EmitLeadingComments c
                             (getTrailingCommentsOfPosition (comments e) (pos c))] s2))
                 else Inr ((), s2)) of
             Inl err \<Rightarrow> Inl err
           | Inr (u, s3) \<Rightarrow>
               (case emitCallback child s3 of
                  Inl err \<Rightarrow> Inl err
                | Inr (u, s4) \<Rightarrow>
                    emitNodeList_loop e emitCallback children format start remaining (i + 1) child True
                      (if shouldDecreaseIndentAfterEmit then emitEvents [DecreaseIndent] s4
                       else s4))))"

definition emitNodeList ::
  "env \<Rightarrow> (Node option \<Rightarrow> PrintSession \<Rightarrow> unit result) \<Rightarrow> Node \<Rightarrow> NodeArray option \<Rightarrow> ListFormat \<Rightarrow>
   nat option \<Rightarrow> int option \<Rightarrow> PrintSession \<Rightarrow> unit result" where
  "emitNodeList e emitCallback parentNode children format startArg countArg s =
     (let start = (case startArg of None \<Rightarrow> 0 | Some v \<Rightarrow> v);
          count = (case countArg of
                     Some v \<Rightarrow> v
                   | None \<Rightarrow>
                       (case children of
                          None \<Rightarrow> 0
                        | Some c \<Rightarrow> int (length (elements c)) - int start));
          isUndefined = (children = None)
      in if isUndefined \<and> hasFormat format ListFormat_OptionalIfUndefined then Inr ((), s)
         else
           (let isEmpty =
                  (case children of
                     None \<Rightarrow> True
                   | Some c \<Rightarrow> length (elements c) = 0 \<or> length (elements c) \<le> start \<or> count = 0)
            in if isEmpty \<and> hasFormat format ListFormat_OptionalIfEmpty then Inr ((), s)
               else
                 runAll
                   [(\<lambda>s. if hasFormat format ListFormat_BracketsMask
                          then writeBracket (getOpeningBracket format) s else Inr ((), s)),
                    (\<lambda>s. if isEmpty then
                            (if hasFormat format ListFormat_MultiLine then writeLine s
                             else if hasFormat format ListFormat_SpaceBetweenBraces
                             then writeText '' '' s
                             else Inr ((), s))
                          else
                            (case children of
                               None \<Rightarrow> Inl TypeError
                             | Some c \<Rightarrow>
                                 (let leading = shouldWriteLeadingLineTerminator e s parentNode c format
                                  in runAll
                                       [(\<lambda>s. if leading then writeLine s
                                              else if hasFormat format ListFormat_SpaceBetweenBraces
                                              then writeText '' '' s
                                              else Inr ((), s)),
                                        (\<lambda>s. if hasFormat format ListFormat_Indented
                                              then increaseIndent s else Inr ((), s)),
                                        emitNodeList_loop e emitCallback c format start (nat count) 0
                                          None (\<not> leading),
                                        (\<lambda>s. if hasFormat format ListFormat_CommaDelimited
                                                 \<and> hasFormat format ListFormat_AllowTrailingComma
                                                 \<and> hasTrailingComma c
                                              then writeText '','' s else Inr ((), s)),
                                        (\<lambda>s. if hasFormat format ListFormat_Indented
                                              then decreaseIndent s else Inr ((), s)),
                                        (\<lambda>s. if shouldWriteClosingLineTerminator e s parentNode c format
                                              then writeLine s
                                              else if hasFormat format ListFormat_SpaceBetweenBraces
                                              then writeText '' '' s
                                              else Inr ((), s))] s))),
                    (\<lambda>s. if hasFormat format ListFormat_BracketsMask
                          then writeBracket (getClosingBracket format) s else Inr ((), s))] s))"

section \<open>Helpers and the file pass\<close>

subsection \<open>The texts of the helpers (lines 21-85)\<close>

definition extendsHelper :: string where
  \<open>extendsHelper = ''\<newline>var __extends = (this && this.__extends) || function (d, b) {\<newline>    for (var p in b) if (b.hasOwnProperty(p)) d[p] = b[p];\<newline>    function __() { this.constructor = d; }\<newline>    d.prototype = b === null ? Object.create(b) : (__.prototype = b.prototype, new __());\<newline>};''\<close>

definition decorateHelper :: string where
  \<open>decorateHelper = ''\<newline>var __decorate = (this && this.__decorate) || function (decorators, target, key, desc) {\<newline>    var c = arguments.length, r = c < 3 ? target : desc === null ? desc = Object.getOwnPropertyDescriptor(target, key) : desc, d;\<newline>    if (typeof Reflect === "object" && typeof Reflect.decorate === "function") r = Reflect.decorate(decorators, target, key, desc);\<newline>    else for (var i = decorators.length - 1; i >= 0; i--) if (d = decorators[i]) r = (c < 3 ? d(r) : c > 3 ? d(target, key, r) : d(target, key)) || r;\<newline>    return c > 3 && r && Object.defineProperty(target, key, r), r;\<newline>};''\<close>

definition metadataHelper :: string where
  \<open>metadataHelper = ''\<newline>var __metadata = (this && this.__metadata) || function (k, v) {\<newline>    if (typeof Reflect === "object" && typeof Reflect.metadata === "function") return Reflect.metadata(k, v);\<newline>};''\<close>

definition paramHelper :: string where
  \<open>paramHelper = ''\<newline>var __param = (this && this.__param) || function (paramIndex, decorator) {\<newline>    return function (target, key) { decorator(target, key, paramIndex); }\<newline>};''\<close>

definition awaiterHelper :: string where
  \<open>awaiterHelper = ''\<newline>var __awaiter = (this && this.__awaiter) || function (thisArg, _arguments, P, generator) {\<newline>    return new (P || (P = Promise))(function (resolve, reject) {\<newline>        function fulfilled(value) { try { step(generator.next(value)); } catch (e) { reject(e); } }\<newline>        function rejected(value) { try { step(generator.throw(value)); } catch (e) { reject(e); } }\<newline>        function step(result) { result.done ? resolve(result.value) : new P(function (resolve) { resolve(result.value); }).then(fulfilled, rejected); }\<newline>        step((generator = generator.apply(thisArg, _arguments)).next());\<newline>    });\<newline>};''\<close>

definition exportStarHelper :: string where
  \<open>exportStarHelper = ''\<newline>function __export(m) {\<newline>    for (var p in m) if (!exports.hasOwnProperty(p)) exports[p] = m[p];\<newline>}''\<close>

definition superHelper :: string where
  \<open>superHelper = ''\<newline>const _super = name => super[name];''\<close>

definition advancedSuperHelper :: string where
  \<open>advancedSuperHelper = ''\<newline>const _super = (function (geti, seti) {\<newline>    const cache = Object.create(null);\<newline>    return name => cache[name] || (cache[name] = { get value() { return geti(name); }, set value(v) { seti(name, v); } });\<newline>})(name => super[name], (name, value) => super[name] = value);''\<close>

subsection \<open>\<^verbatim>\<open>emitEmitHelpers\<close> and \<^verbatim>\<open>emitHelpers\<close> (lines 1958-2024)\<close>

text \<open>The four steps of \<^verbatim>\<open>emitEmitHelpers\<close>, each on the flag \<^verbatim>\<open>helpersEmitted\<close> and the
  state the step before has left.\<close>

definition emitExtendsHelper :: "env \<Rightarrow> Node \<Rightarrow> bool \<times> PrintSession \<Rightarrow> bool \<times> PrintSession" where
  "emitExtendsHelper e node hs =
     (case hs of (helpersEmitted, s) \<Rightarrow>
        if scriptTargetValue (languageVersion e) < scriptTargetValue ES6
           \<and> \<not> extendsEmitted s \<and> HasClassExtends \<in> flags node
        then (True, (writeLines extendsHelper s)\<lparr>extendsEmitted := True\<rparr>)
        else (helpersEmitted, s))"

definition emitDecorateHelper :: "env \<Rightarrow> Node \<Rightarrow> bool \<times> PrintSession \<Rightarrow> bool \<times> PrintSession" where
  "emitDecorateHelper e node hs =
     (case hs of (helpersEmitted, s) \<Rightarrow>
        if \<not> decorateEmitted s \<and> HasDecorators \<in> flags node
        then (True,
              (if emitDecoratorMetadata (compilerOptions e)
               then writeLines metadataHelper (writeLines decorateHelper s)
               else writeLines decorateHelper s)\<lparr>decorateEmitted := True\<rparr>)
        else (helpersEmitted, s))"

definition emitParamHelper :: "env \<Rightarrow> Node \<Rightarrow> bool \<times> PrintSession \<Rightarrow> bool \<times> PrintSession" where
  "emitParamHelper e node hs =
     (case hs of (helpersEmitted, s) \<Rightarrow>
        if \<not> paramEmitted s \<and> HasParamDecorators \<in> flags node
        then (True, (writeLines paramHelper s)\<lparr>paramEmitted := True\<rparr>)
        else (helpersEmitted, s))"

definition emitAwaiterHelper :: "env \<Rightarrow> Node \<Rightarrow> bool \<times> PrintSession \<Rightarrow> bool \<times> PrintSession" where
  "emitAwaiterHelper e node hs =
     (case hs of (helpersEmitted, s) \<Rightarrow>
        if \<not> awaiterEmitted s \<and> HasAsyncFunctions \<in> flags node
        then (True, (writeLines awaiterHelper s)\<lparr>awaiterEmitted := True\<rparr>)
        else (helpersEmitted, s))"

definition emitEmitHelpers :: "env \<Rightarrow> Node \<Rightarrow> PrintSession \<Rightarrow> bool \<times> PrintSession" where
  "emitEmitHelpers e node s =
     (if \<not> noEmitHelpers (compilerOptions e) then
        (case emitAwaiterHelper e node
                (emitParamHelper e node
                   (emitDecorateHelper e node (emitExtendsHelper e node (False, s)))) of
           (helpersEmitted, s') \<Rightarrow>
             if helpersEmitted then (True, emitEvents [WriteLine] s') else (False, s'))
      else (False, s))"

text \<open>\<^verbatim>\<open>emitHelpers\<close> passes \<^verbatim>\<open>currentSourceFile\<close> on; when there is none,
  \<^verbatim>\<open>emitEmitHelpers\<close> fails as soon as it reads \<^verbatim>\<open>node.flags\<close>.\<close>

definition emitHelpers :: "env \<Rightarrow> Node \<Rightarrow> PrintSession \<Rightarrow> bool result" where
  "emitHelpers e node s =
     (let emitFlags = getNodeEmitFlags s node in
      case (if EmitEmitHelpers \<in> emitFlags then
              (case currentSourceFile s of
                 Some sourceFile \<Rightarrow> Inr (emitEmitHelpers e sourceFile s)
               | None \<Rightarrow>
                   if noEmitHelpers (compilerOptions e)
                      \<or> (\<not> (scriptTargetValue (languageVersion e) < scriptTargetValue ES6
                               \<and> \<not> extendsEmitted s)
                          \<and> decorateEmitted s \<and> paramEmitted s \<and> awaiterEmitted s)
                   then Inr (False, s)
                   else Inl TypeError)
            else Inr (False, s)) of
        Inl err \<Rightarrow> Inl err
      | Inr (h0, s0) \<Rightarrow>
          (let (h1, s1) = (if EmitExportStar \<in> emitFlags
                           then (True, writeLines exportStarHelper s0) else (h0, s0));
               (h2, s2) = (if EmitSuperHelper \<in> emitFlags
                           then (True, writeLines superHelper s1) else (h1, s1));
               (h3, s3) = (if EmitAdvancedSuperHelper \<in> emitFlags
                           then (True, writeLines advancedSuperHelper s2) else (h2, s2))
           in Inr (h3, s3)))"

subsection \<open>\<^verbatim>\<open>emitSourceFile\<close> (lines 1885-1956)\<close>

text \<open>
  The emitters of this section call \<^verbatim>\<open>emit\<close> on the nodes below them. They are written
  with that emitter as the parameter \<open>emitCallback\<close>, and the dispatcher of the next section
  calls them with itself.
\<close>

definition emitShebang :: "env \<Rightarrow> PrintSession \<Rightarrow> unit result" where
  "emitShebang e s =
     (case getShebang (util e) (currentText s) of
        None \<Rightarrow> Inr ((), s)
      | Some shebang \<Rightarrow>
          if shebang \<noteq> [] then runAll [writeText shebang, writeLine] s else Inr ((), s))"

text \<open>The loop of \<^verbatim>\<open>emitPrologueDirectives\<close> from index \<open>i\<close> on, over the statements that
  remain; it returns the index of the first statement that is no prologue directive.\<close>

fun emitPrologueDirectives_from ::
  "env \<Rightarrow> (Node option \<Rightarrow> PrintSession \<Rightarrow> unit result) \<Rightarrow> bool \<Rightarrow> nat \<Rightarrow> Node list \<Rightarrow>
   PrintSession \<Rightarrow> nat result" where
  "emitPrologueDirectives_from e emitCallback startWithNewLine i [] s = Inr (i, s)"
| "emitPrologueDirectives_from e emitCallback startWithNewLine i (statement # rest) s =
     (if isPrologueDirective (util e) statement then
        (case runAll
                [(\<lambda>s. if startWithNewLine \<or> 0 < i then writeLine s else Inr ((), s)),
                 emitCallback (Some statement)] s of
           Inl err \<Rightarrow> Inl err
         | Inr (u, s') \<Rightarrow>
             emitPrologueDirectives_from e emitCallback startWithNewLine (i + 1) rest s')
      else Inr (i, s))"

definition emitPrologueDirectives ::
  "env \<Rightarrow> (Node option \<Rightarrow> PrintSession \<Rightarrow> unit result) \<Rightarrow> Node list \<Rightarrow> bool \<Rightarrow>
   PrintSession \<Rightarrow> nat result" where
  "emitPrologueDirectives e emitCallback stmts startWithNewLine s =
     emitPrologueDirectives_from e emitCallback startWithNewLine 0 stmts s"

fun emitLexicalEnvironment_each ::
  "(Node option \<Rightarrow> PrintSession \<Rightarrow> unit result) \<Rightarrow> bool \<Rightarrow> Node list \<Rightarrow> PrintSession \<Rightarrow> unit result"
where
  "emitLexicalEnvironment_each emitCallback newLine [] s = Inr ((), s)"
| "emitLexicalEnvironment_each emitCallback newLine (node # rest) s =
     runAll
       [(\<lambda>s. if newLine then writeLine s else writeText '' '' s),
        emitCallback (Some node),
        emitLexicalEnvironment_each emitCallback newLine rest] s"

definition emitLexicalEnvironment ::
  "(Node option \<Rightarrow> PrintSession \<Rightarrow> unit result) \<Rightarrow> Node list \<Rightarrow> bool \<Rightarrow> PrintSession \<Rightarrow> unit result"
where
  "emitLexicalEnvironment emitCallback declarations newLine s =
     (if declarations \<noteq> [] then
        runAll
          [emitLexicalEnvironment_each emitCallback newLine declarations,
           (\<lambda>s. if newLine then writeLine s else writeText '' '' s)] s
      else Inr ((), s))"

definition emitList ::
  "env \<Rightarrow> (Node option \<Rightarrow> PrintSession \<Rightarrow> unit result) \<Rightarrow> Node \<Rightarrow> NodeArray option \<Rightarrow> ListFormat \<Rightarrow>
   nat option \<Rightarrow> int option \<Rightarrow> PrintSession \<Rightarrow> unit result" where
  "emitList e emitCallback parentNode children format start count s =
     emitNodeList e emitCallback parentNode children format start count s"

definition emitSourceFile ::
  "env \<Rightarrow> (Node option \<Rightarrow> PrintSession \<Rightarrow> unit result) \<Rightarrow> Node \<Rightarrow> PrintSession \<Rightarrow> unit result" where
  "emitSourceFile e emitCallback node s =
     (case runAll [writeLine, emitShebang e,
                   (\<lambda>s. Inr ((), emitEvents [EmitDetachedComments node] s))] s of
        Inl err \<Rightarrow> Inl err
      | Inr (u, s1) \<Rightarrow>
          (case emitPrologueDirectives e emitCallback (statements node) False s1 of
             Inl err \<Rightarrow> Inl err
           | Inr (statementOffset, s2) \<Rightarrow>
               runAll
                 [(\<lambda>s. if NoLexicalEnvironment \<in> getNodeEmitFlags s node then
                          runAll
                            [(\<lambda>s. map_sum id (\<lambda>(h, s'). ((), s')) (emitHelpers e node s)),
                             emitList e emitCallback node
                               (Some \<lparr>elements = statements node, hasTrailingComma = False\<rparr>)
                               ListFormat_MultiLine (Some statementOffset) None] s
                        else
                          (let savedTempFlags = tempFlags s in
                           runAll
                             [(\<lambda>s. Inr ((), emitEvents [StartLexicalEnvironment]
                                               (s\<lparr>tempFlags := 0\<rparr>))),
                              (\<lambda>s. map_sum id (\<lambda>(h, s'). ((), s')) (emitHelpers e node s)),
                              emitList e emitCallback node
                                (Some \<lparr>elements = statements node, hasTrailingComma = False\<rparr>)
                                ListFormat_MultiLine (Some statementOffset) None,
                              (\<lambda>s. emitLexicalEnvironment emitCallback
                                     (endLexicalEnvironment (transformContext e) (trace s)) True
                                     (emitEvents [EndLexicalEnvironment] s)),
                              (\<lambda>s. Inr ((), s\<lparr>tempFlags := savedTempFlags\<rparr>))] s)),
                  (\<lambda>s. Inr ((), emitEvents [EmitEndOfFileComments node] s))] s2))"

subsection \<open>Blocks and expression statements (lines 1207-1240, 2480-2484)\<close>

definition isBlock :: "Node \<Rightarrow> bool" where
  "isBlock node \<longleftrightarrow> kind node = Block"

text \<open>A node array of the tree is the list of its elements; none has a trailing comma.\<close>

definition nodeArray :: "Node list \<Rightarrow> NodeArray" where
  "nodeArray nodes = \<lparr>elements = nodes, hasTrailingComma = False\<rparr>"

definition isSingleLineEmptyBlock :: "env \<Rightarrow> PrintSession \<Rightarrow> Node \<Rightarrow> bool" where
  "isSingleLineEmptyBlock e s block \<longleftrightarrow>
     \<not> multiLine block \<and> length (statements block) = 0
     \<and> rangeEndIsOnSameLineAsRangeStart (util e) block block (currentSourceFile s)"

definition emitBlockStatements ::
  "env \<Rightarrow> (Node option \<Rightarrow> PrintSession \<Rightarrow> unit result) \<Rightarrow> Node \<Rightarrow> PrintSession \<Rightarrow> unit result" where
  "emitBlockStatements e emitCallback node s =
     (if SingleLine \<in> getNodeEmitFlags s node
      then emitList e emitCallback node (Some (nodeArray (statements node)))
             ListFormat_SingleLineBlockStatements None None s
      else emitList e emitCallback node (Some (nodeArray (statements node)))
             ListFormat_MultiLineBlockStatements None None s)"

definition emitBlock ::
  "env \<Rightarrow> (Node option \<Rightarrow> PrintSession \<Rightarrow> unit result) \<Rightarrow> Node \<Rightarrow> PrintSession \<Rightarrow> unit result" where
  "emitBlock e emitCallback node s =
     (if isSingleLineEmptyBlock e s node then writeText ''{ }'' s
      else runAll [writeText ''{'', emitBlockStatements e emitCallback node, writeText ''}''] s)"

definition emitExpressionStatement ::
  "(Node option \<Rightarrow> PrintSession \<Rightarrow> unit result) \<Rightarrow> Node \<Rightarrow> PrintSession \<Rightarrow> unit result" where
  "emitExpressionStatement emitExpressionCallback node s =
     runAll [emitExpressionCallback (expression node), writeText '';''] s"

subsection \<open>Decorators, modifiers, parameters (lines 2051-2071, 2123-2137)\<close>

definition emitModifiers ::
  "env \<Rightarrow> (Node option \<Rightarrow> PrintSession \<Rightarrow> unit result) \<Rightarrow> Node \<Rightarrow> Node list option \<Rightarrow>
   PrintSession \<Rightarrow> unit result" where
  "emitModifiers e emitCallback node mods s =
     (case mods of
        None \<Rightarrow> Inr ((), s)
      | Some ms \<Rightarrow>
          if length ms \<noteq> 0
          then runAll [emitList e emitCallback node (Some (nodeArray ms)) ListFormat_Modifiers None None,
                       writeText '' ''] s
          else Inr ((), s))"

definition emitNodeWithPrefix ::
  "string \<Rightarrow> Node option \<Rightarrow> (Node option \<Rightarrow> PrintSession \<Rightarrow> unit result) \<Rightarrow> PrintSession \<Rightarrow> unit result"
where
  "emitNodeWithPrefix prefix node emitCallback s =
     (case node of
        None \<Rightarrow> Inr ((), s)
      | Some n \<Rightarrow> runAll [writeText prefix, emitCallback (Some n)] s)"

definition emitWithPrefix ::
  "(Node option \<Rightarrow> PrintSession \<Rightarrow> unit result) \<Rightarrow> string \<Rightarrow> Node option \<Rightarrow> PrintSession \<Rightarrow> unit result"
where
  "emitWithPrefix emitCallback prefix node s = emitNodeWithPrefix prefix node emitCallback s"

definition emitDecorators ::
  "env \<Rightarrow> (Node option \<Rightarrow> PrintSession \<Rightarrow> unit result) \<Rightarrow> Node \<Rightarrow> Node list option \<Rightarrow>
   PrintSession \<Rightarrow> unit result" where
  "emitDecorators e emitCallback parentNode decs s =
     emitList e emitCallback parentNode (map_option nodeArray decs) ListFormat_Decorators None None s"

definition emitTypeParameters ::
  "env \<Rightarrow> (Node option \<Rightarrow> PrintSession \<Rightarrow> unit result) \<Rightarrow> Node \<Rightarrow> Node list option \<Rightarrow>
   PrintSession \<Rightarrow> unit result" where
  "emitTypeParameters e emitCallback parentNode params s =
     emitList e emitCallback parentNode (map_option nodeArray params) ListFormat_TypeParameters
       None None s"

definition emitParameters ::
  "env \<Rightarrow> (Node option \<Rightarrow> PrintSession \<Rightarrow> unit result) \<Rightarrow> Node \<Rightarrow> Node list option \<Rightarrow>
   PrintSession \<Rightarrow> unit result" where
  "emitParameters e emitCallback parentNode params s =
     emitList e emitCallback parentNode (map_option nodeArray params) ListFormat_Parameters
       None None s"

subsection \<open>Functions (lines 1397-1515)\<close>

definition emitSignatureHead ::
  "env \<Rightarrow> (Node option \<Rightarrow> PrintSession \<Rightarrow> unit result) \<Rightarrow> Node \<Rightarrow> PrintSession \<Rightarrow> unit result" where
  "emitSignatureHead e emitCallback node s =
     runAll [emitTypeParameters e emitCallback node (typeParameters node),
             emitParameters e emitCallback node (parameters node),
             emitWithPrefix emitCallback '': '' (type node)] s"

text \<open>The loop of \<^verbatim>\<open>shouldEmitBlockFunctionBodyOnSingleLine\<close> over the statements that
  remain: whether a line terminator separates two of them.\<close>

fun anySeparatingLineTerminator ::
  "env \<Rightarrow> PrintSession \<Rightarrow> Node option \<Rightarrow> Node list \<Rightarrow> error + bool" where
  "anySeparatingLineTerminator e s previousStatement [] = Inr False"
| "anySeparatingLineTerminator e s previousStatement (statement # rest) =
     (case shouldWriteSeparatingLineTerminator e s previousStatement (Some statement)
             ListFormat_PreserveLines of
        Inl err \<Rightarrow> Inl err
      | Inr separated \<Rightarrow>
          if separated then Inr True
          else anySeparatingLineTerminator e s (Some statement) rest)"

definition shouldEmitBlockFunctionBodyOnSingleLine ::
  "env \<Rightarrow> PrintSession \<Rightarrow> Node \<Rightarrow> Node \<Rightarrow> error + bool" where
  "shouldEmitBlockFunctionBodyOnSingleLine e s parentNode b =
     (if SingleLine \<in> getNodeEmitFlags s b then Inr True
      else if multiLine b then Inr False
      else if \<not> nodeIsSynthesized (util e) b
              \<and> \<not> rangeIsOnSingleLine (util e) b (currentSourceFile s)
      then Inr False
      else if shouldWriteLeadingLineTerminator e s b (nodeArray (statements b))
                ListFormat_PreserveLines
              \<or> shouldWriteClosingLineTerminator e s b (nodeArray (statements b))
                   ListFormat_PreserveLines
      then Inr False
      else (case anySeparatingLineTerminator e s None (statements b) of
              Inl err \<Rightarrow> Inl err
            | Inr separated \<Rightarrow> Inr (\<not> separated)))"

definition emitBlockFunctionBody ::
  "env \<Rightarrow> (Node option \<Rightarrow> PrintSession \<Rightarrow> unit result) \<Rightarrow> Node \<Rightarrow> Node \<Rightarrow> PrintSession \<Rightarrow> unit result"
where
  "emitBlockFunctionBody e emitCallback parentNode b s =
     (let startingLine = getLine e (trace s) in
      case emitPrologueDirectives e emitCallback (statements b) True
             (emitEvents [IncreaseIndent, EmitDetachedCommentsOfStatements b] s) of
        Inl err \<Rightarrow> Inl err
      | Inr (statementOffset, s1) \<Rightarrow>
          (case emitHelpers e b s1 of
             Inl err \<Rightarrow> Inl err
           | Inr (helpersEmitted, s2) \<Rightarrow>
               (case (if statementOffset = 0 \<and> \<not> helpersEmitted
                      then shouldEmitBlockFunctionBodyOnSingleLine e s2 parentNode b
                      else Inr False) of
                  Inl err \<Rightarrow> Inl err
                | Inr singleLine \<Rightarrow>
                    runAll
                      [(\<lambda>s. if singleLine then
                               runAll
                                 [decreaseIndent,
                                  emitList e emitCallback b (Some (nodeArray (statements b)))
                                    ListFormat_SingleLineFunctionBodyStatements None None,
                                  increaseIndent] s
                             else
                               emitList e emitCallback b (Some (nodeArray (statements b)))
                                 ListFormat_MultiLineFunctionBodyStatements (Some statementOffset)
                                 None s),
                       (\<lambda>s. emitLexicalEnvironment emitCallback
                              (endLexicalEnvironment (transformContext e) (trace s))
                              (startingLine \<noteq> getLine e (trace s))
                              (emitEvents [EndLexicalEnvironment] s)),
                       (\<lambda>s. Inr ((), emitEvents [EmitEndOfBodyComments b] s)),
                       decreaseIndent] s2)))"

text \<open>\<^verbatim>\<open>emitSignatureAndBody\<close> with the emitter of the head it is given.\<close>

definition emitSignatureAndBody ::
  "env \<Rightarrow> (Node option \<Rightarrow> PrintSession \<Rightarrow> unit result) \<Rightarrow>
   (Node option \<Rightarrow> PrintSession \<Rightarrow> unit result) \<Rightarrow> Node \<Rightarrow>
   (Node \<Rightarrow> PrintSession \<Rightarrow> unit result) \<Rightarrow> PrintSession \<Rightarrow> unit result" where
  "emitSignatureAndBody e emitCallback emitExpressionCallback node emitHead s =
     (case body node of
        Some b \<Rightarrow>
          if isBlock b then
            (let indentedFlag = Indented \<in> getNodeEmitFlags s node;
                 savedTempFlags = tempFlags s
             in runAll
                  [(\<lambda>s. if indentedFlag then increaseIndent s else Inr ((), s)),
                   (\<lambda>s. Inr ((), emitEvents [StartLexicalEnvironment] (s\<lparr>tempFlags := 0\<rparr>))),
                   emitHead node,
                   writeText '' {'',
                   emitBlockFunctionBody e emitCallback node b,
                   writeText ''}'',
                   (\<lambda>s. if indentedFlag then decreaseIndent s else Inr ((), s)),
                   (\<lambda>s. Inr ((), s\<lparr>tempFlags := savedTempFlags\<rparr>))] s)
          else runAll [emitHead node, writeText '' '', emitExpressionCallback (Some b)] s
      | None \<Rightarrow> runAll [emitHead node, writeText '';''] s)"

definition emitFunctionDeclarationOrExpression ::
  "env \<Rightarrow> (Node option \<Rightarrow> PrintSession \<Rightarrow> unit result) \<Rightarrow>
   (Node option \<Rightarrow> PrintSession \<Rightarrow> unit result) \<Rightarrow> Node \<Rightarrow> PrintSession \<Rightarrow> unit result" where
  "emitFunctionDeclarationOrExpression e emitCallback emitExpressionCallback node s =
     runAll
       [emitDecorators e emitCallback node (decorators node),
        emitModifiers e emitCallback node (modifiers node),
        writeText (if asteriskToken node \<noteq> None then ''function* '' else ''function ''),
        emitCallback (name node),
        emitSignatureAndBody e emitCallback emitExpressionCallback node
          (emitSignatureHead e emitCallback)] s"

subsection \<open>The dispatcher (lines 255-280, 322-674, 982-1057, 2080-2091)\<close>

text \<open>
  \<^verbatim>\<open>emit\<close>, \<^verbatim>\<open>emitExpression\<close>, their two workers, \<^verbatim>\<open>tryEmitSubstitute\<close> and the emitters of
  the kinds above call one another; each call takes one unit of fuel. The emitters of
  source files, blocks, expression statements and functions are those of the sections
  before, called with \<^verbatim>\<open>emit\<close> and \<^verbatim>\<open>emitExpression\<close>. A kind whose emitter is outside
  this development gives \<open>NotModelled\<close>; a kind with no case in either \<^verbatim>\<open>switch\<close> emits
  nothing. \<^verbatim>\<open>substitute !== node\<close> compares identities.
\<close>

function (sequential)
    emit :: "env \<Rightarrow> nat \<Rightarrow> Node option \<Rightarrow> PrintSession \<Rightarrow> unit result"
and emitWithoutNotificationOption :: "env \<Rightarrow> nat \<Rightarrow> Node option \<Rightarrow> PrintSession \<Rightarrow> unit result"
and emitExpression :: "env \<Rightarrow> nat \<Rightarrow> Node option \<Rightarrow> PrintSession \<Rightarrow> unit result"
and emitExpressionWithoutNotificationOption ::
      "env \<Rightarrow> nat \<Rightarrow> Node option \<Rightarrow> PrintSession \<Rightarrow> unit result"
and emitWorker :: "env \<Rightarrow> nat \<Rightarrow> Node \<Rightarrow> PrintSession \<Rightarrow> unit result"
and emitExpressionWorker :: "env \<Rightarrow> nat \<Rightarrow> Node \<Rightarrow> PrintSession \<Rightarrow> unit result"
and tryEmitSubstitute ::
      "env \<Rightarrow> nat \<Rightarrow> Node \<Rightarrow> (Node \<Rightarrow> Node) option \<Rightarrow> PrintSession \<Rightarrow> bool result"
and emitPropertyAccessExpression :: "env \<Rightarrow> nat \<Rightarrow> Node \<Rightarrow> PrintSession \<Rightarrow> unit result"
and emitElementAccessExpression :: "env \<Rightarrow> nat \<Rightarrow> Node \<Rightarrow> PrintSession \<Rightarrow> unit result"
and emitParenthesizedExpression :: "env \<Rightarrow> nat \<Rightarrow> Node \<Rightarrow> PrintSession \<Rightarrow> unit result"
where
  "emit e 0 node s = Inl OutOfFuel"
| "emit e (Suc fuel) node s =
     emitNodeWithNotificationOption e node (emitWithoutNotificationOption e fuel) s"
| "emitWithoutNotificationOption e 0 node s = Inl OutOfFuel"
| "emitWithoutNotificationOption e (Suc fuel) node s =
     emitNodeWithWorker e node (emitWorker e fuel) s"
| "emitExpression e 0 node s = Inl OutOfFuel"
| "emitExpression e (Suc fuel) node s =
     emitNodeWithNotificationOption e node (emitExpressionWithoutNotificationOption e fuel) s"
| "emitExpressionWithoutNotificationOption e 0 node s = Inl OutOfFuel"
| "emitExpressionWithoutNotificationOption e (Suc fuel) node s =
     emitNodeWithWorker e node (emitExpressionWorker e fuel) s"
| "emitWorker e 0 node s = Inl OutOfFuel"
| "emitWorker e (Suc fuel) node s =
     (if kind node = Identifier then
        (case tryEmitSubstitute e fuel node (identifierSubstitution (transformContext e)) s of
           Inl err \<Rightarrow> Inl err
         | Inr (substituted, s1) \<Rightarrow>
             if substituted then Inr ((), s1) else emitIdentifier e fuel node s1)
      else if kind node = Block then emitBlock e (emit e fuel) node s
      else if kind node = ExpressionStatement
      then emitExpressionStatement (emitExpression e fuel) node s
      else if kind node = FunctionDeclaration
      then emitFunctionDeclarationOrExpression e (emit e fuel) (emitExpression e fuel) node s
      else if kind node = SourceFile then emitSourceFile e (emit e fuel) node s
      else if kind node \<in> {VariableDeclaration, ClassDeclaration, EnumDeclaration,
                ModuleDeclaration, ImportDeclaration, ExportAssignment, ExportDeclaration}
      then Inl NotModelled
      else if isExpression (util e) node then emitExpressionWorker e fuel node s
      else Inr ((), s))"
| "emitExpressionWorker e 0 node s = Inl OutOfFuel"
| "emitExpressionWorker e (Suc fuel) node s =
     (case (if isExpressionSubstitutionEnabled (transformContext e) node
            then tryEmitSubstitute e fuel node (expressionSubstitution (transformContext e)) s
            else Inr (False, s)) of
        Inl err \<Rightarrow> Inl err
      | Inr (substituted, s1) \<Rightarrow>
          if substituted then Inr ((), s1)
          else if kind node = NumericLiteral \<or> kind node = StringLiteral
          then emitLiteral e fuel node s1
          else if kind node = Identifier then emitIdentifier e fuel node s1
          else if kind node = PropertyAccessExpression
          then emitPropertyAccessExpression e fuel node s1
          else if kind node = ElementAccessExpression
          then emitElementAccessExpression e fuel node s1
          else if kind node = ParenthesizedExpression
          then emitParenthesizedExpression e fuel node s1
          else if kind node = FunctionExpression
          then emitFunctionDeclarationOrExpression e (emit e fuel) (emitExpression e fuel) node s1
          else if kind node = OmittedExpression then Inr ((), s1)
          else if kind node = ClassExpression then Inl NotModelled
          else Inr ((), s1))"
| "tryEmitSubstitute e 0 node substitution s = Inl OutOfFuel"
| "tryEmitSubstitute e (Suc fuel) node substitution s =
     (case substitution of
        None \<Rightarrow> Inr (False, s)
      | Some hook \<Rightarrow>
          if NoSubstitution \<notin> getNodeEmitFlags s node then
            (let substitute = hook node;
                 s1 = emitEvents [Substitution node] s
             in if ref substitute \<noteq> ref node then
                  (case emitWorker e fuel substitute
                          (setNodeEmitFlags substitute
                             (insert NoSubstitution (getNodeEmitFlags s1 substitute)) s1) of
                     Inl err \<Rightarrow> Inl err
                   | Inr (u, s2) \<Rightarrow> Inr (True, s2))
                else Inr (False, s1))
          else Inr (False, s))"
| "emitPropertyAccessExpression e 0 node s = Inl OutOfFuel"
| "emitPropertyAccessExpression e (Suc fuel) node s =
     (case tryEmitConstantValue e fuel node s of
        Inl err \<Rightarrow> Inl err
      | Inr (emitted, s1) \<Rightarrow>
          if emitted then Inr ((), s1)
          else
            (case (needsIndentation e s1 (Some node) (expression node) (dotToken node),
                   needsIndentation e s1 (Some node) (dotToken node) (name node),
                   expression node) of
               (Inr indentBeforeDot, Inr indentAfterDot, Some target) \<Rightarrow>
                 (case (if \<not> indentBeforeDot
                        then needsDotDotForPropertyAccess e fuel target s1
                        else Inr (False, s1)) of
                    Inl err \<Rightarrow> Inl err
                  | Inr (shouldEmitDotDot, s2) \<Rightarrow>
                      runAll
                        [emitExpression e fuel (expression node),
                         increaseIndentIf indentBeforeDot None,
                         writeText (if shouldEmitDotDot then ''..'' else ''.''),
                         increaseIndentIf indentAfterDot None,
                         emit e fuel (name node),
                         decreaseIndentIf indentBeforeDot indentAfterDot] s2)
             | _ \<Rightarrow> Inl TypeError))"
| "emitElementAccessExpression e 0 node s = Inl OutOfFuel"
| "emitElementAccessExpression e (Suc fuel) node s =
     (case tryEmitConstantValue e fuel node s of
        Inl err \<Rightarrow> Inl err
      | Inr (emitted, s1) \<Rightarrow>
          if emitted then Inr ((), s1)
          else runAll
                 [emitExpression e fuel (expression node),
                  writeText ''['',
                  emitExpression e fuel (argumentExpression node),
                  writeText '']''] s1)"
| "emitParenthesizedExpression e 0 node s = Inl OutOfFuel"
| "emitParenthesizedExpression e (Suc fuel) node s =
     runAll [writeText ''('', emitExpression e fuel (expression node), writeText '')''] s"
  by pat_completeness auto

termination
  by (relation "measure (\<lambda>x. case x of
         Inl (Inl (Inl (e, n, r))) \<Rightarrow> n
       | Inl (Inl (Inr (e, n, r))) \<Rightarrow> n
       | Inl (Inr (Inl (e, n, r))) \<Rightarrow> n
       | Inl (Inr (Inr (Inl (e, n, r)))) \<Rightarrow> n
       | Inl (Inr (Inr (Inr (e, n, r)))) \<Rightarrow> n
       | Inr (Inl (Inl (e, n, r))) \<Rightarrow> n
       | Inr (Inl (Inr (e, n, r))) \<Rightarrow> n
       | Inr (Inr (Inl (e, n, r))) \<Rightarrow> n
       | Inr (Inr (Inr (Inl (e, n, r)))) \<Rightarrow> n
       | Inr (Inr (Inr (Inr (e, n, r)))) \<Rightarrow> n)") simp_all


text \<open>The state in which \<^verbatim>\<open>tryEmitSubstitute\<close> emits the substitute of a node: the call of
  the hook is in the trace and the substitute carries \<^verbatim>\<open>NoSubstitution\<close>.\<close>

definition substituted :: "(Node \<Rightarrow> Node) \<Rightarrow> Node \<Rightarrow> PrintSession \<Rightarrow> PrintSession" where
  "substituted hook node s =
     setNodeEmitFlags (hook node) (insert NoSubstitution (getNodeEmitFlags s (hook node)))
       (emitEvents [Substitution node] s)"

subsection \<open>\<^verbatim>\<open>printSourceFile\<close> and \<^verbatim>\<open>doPrint\<close> (lines 170-250)\<close>

text \<open>\<^verbatim>\<open>printSourceFile\<close> hands \<^verbatim>\<open>emitWorker\<close> to \<^verbatim>\<open>emitNodeWithNotificationOption\<close>.\<close>

definition printSourceFile :: "env \<Rightarrow> nat \<Rightarrow> Node \<Rightarrow> PrintSession \<Rightarrow> unit result" where
  "printSourceFile e fuel node s =
     emitNodeWithNotificationOption e (Some node)
       (\<lambda>n s. case n of None \<Rightarrow> Inr ((), s) | Some n' \<Rightarrow> emitWorker e fuel n' s)
       (emitEvents [SetSourceFile node]
          (s\<lparr>currentSourceFile := Some node,
             currentText := Some (nodeText node),
             currentFileIdentifiers := identifiersOf (util e) node\<rparr>))"

text \<open>\<^verbatim>\<open>forEach(sourceFiles, emitEmitHelpers)\<close>.\<close>

fun forEach_emitEmitHelpers :: "env \<Rightarrow> Node list \<Rightarrow> PrintSession \<Rightarrow> PrintSession" where
  "forEach_emitEmitHelpers e [] s = s"
| "forEach_emitEmitHelpers e (sourceFile # rest) s =
     (case emitEmitHelpers e sourceFile s of
        (helpersEmitted, s') \<Rightarrow>
          if helpersEmitted \<and> forEachReturnsFirstTruthy (util e) then s'
          else forEach_emitEmitHelpers e rest s')"

text \<open>Modelled from the spec: \<^verbatim>\<open>transformFiles\<close> (\<^verbatim>\<open>transformer.ts\<close>) is missing; by the
  spec the files of a pass are printed strictly one at a time to completion, each by the
  printer that \<^verbatim>\<open>initializePrinter\<close> returns, \<^verbatim>\<open>printSourceFile\<close>.\<close>

fun transformFiles :: "env \<Rightarrow> nat \<Rightarrow> Node list \<Rightarrow> PrintSession \<Rightarrow> unit result" where
  "transformFiles e fuel [] s = Inr ((), s)"
| "transformFiles e fuel (sourceFile # rest) s =
     (case printSourceFile e fuel sourceFile s of
        Inl err \<Rightarrow> Inl err
      | Inr (u, s') \<Rightarrow> transformFiles e fuel rest s')"

text \<open>\<^verbatim>\<open>doPrint\<close> returns what the writer holds when the output file is written
  (\<^verbatim>\<open>writer.getText()\<close>, here the trace) and the state after the reset; \<^verbatim>\<open>writer.reset()\<close>
  empties the trace.\<close>

definition doPrint ::
  "env \<Rightarrow> nat \<Rightarrow> Node list \<Rightarrow> bool \<Rightarrow> PrintSession \<Rightarrow> event list result" where
  "doPrint e fuel sourceFiles isBundledEmit s =
     (let s1 = s\<lparr>nodeToGeneratedName := Map.empty, generatedNameSet := {}\<rparr>;
          s2 = (if isBundledEmit \<and> moduleKindIsSet e
                then forEach_emitEmitHelpers e sourceFiles s1 else s1)
      in case runAll
                [transformFiles e fuel sourceFiles,
                 writeLine,
                 (\<lambda>s. case sourceMappingURL e of
                        None \<Rightarrow> Inr ((), s)
                      | Some url \<Rightarrow>
                          if url \<noteq> [] then writeText (''//# sourceMappingURL='' @ url) s
                          else Inr ((), s))] s2 of
           Inl err \<Rightarrow> Inl err
         | Inr (u, s3) \<Rightarrow>
             Inr (trace s3,
                  s3\<lparr>trace := [],
                     tempFlags := TempFlags_Auto,
                     currentSourceFile := None,
                     currentText := None,
                     extendsEmitted := False,
                     decorateEmitted := False,
                     paramEmitted := False,
                     awaiterEmitted := False\<rparr>))"

subsection \<open>The four helpers with a flag\<close>

datatype EmitHelper = ExtendsHelper | DecorateHelper | ParamHelper | AwaiterHelper

fun helperEmitted :: "EmitHelper \<Rightarrow> PrintSession \<Rightarrow> bool" where
  "helperEmitted ExtendsHelper s = extendsEmitted s"
| "helperEmitted DecorateHelper s = decorateEmitted s"
| "helperEmitted ParamHelper s = paramEmitted s"
| "helperEmitted AwaiterHelper s = awaiterEmitted s"

fun helperText :: "EmitHelper \<Rightarrow> string" where
  "helperText ExtendsHelper = extendsHelper"
| "helperText DecorateHelper = decorateHelper"
| "helperText ParamHelper = paramHelper"
| "helperText AwaiterHelper = awaiterHelper"

text \<open>How often a helper is emitted in a trace: the calls of \<^verbatim>\<open>writeLines\<close> with its text.\<close>

definition helperWrites :: "EmitHelper \<Rightarrow> event list \<Rightarrow> nat" where
  "helperWrites h evs = length (filter (\<lambda>ev. ev = WriteLines (helperText h)) evs)"

text \<open>When \<^verbatim>\<open>emitEmitHelpers\<close> takes a file to depend on a helper.\<close>

fun helperNeeded :: "env \<Rightarrow> EmitHelper \<Rightarrow> Node \<Rightarrow> bool" where
  "helperNeeded e ExtendsHelper node \<longleftrightarrow>
     \<not> noEmitHelpers (compilerOptions e) \<and>
     scriptTargetValue (languageVersion e) < scriptTargetValue ES6 \<and> HasClassExtends \<in> flags node"
| "helperNeeded e DecorateHelper node \<longleftrightarrow>
     \<not> noEmitHelpers (compilerOptions e) \<and> HasDecorators \<in> flags node"
| "helperNeeded e ParamHelper node \<longleftrightarrow>
     \<not> noEmitHelpers (compilerOptions e) \<and> HasParamDecorators \<in> flags node"
| "helperNeeded e AwaiterHelper node \<longleftrightarrow>
     \<not> noEmitHelpers (compilerOptions e) \<and> HasAsyncFunctions \<in> flags node"

text \<open>The emissions of a helper so far, plus one while its flag is clear.\<close>

definition helperBudget :: "EmitHelper \<Rightarrow> PrintSession \<Rightarrow> nat" where
  "helperBudget h s = helperWrites h (trace s) + (if helperEmitted h s then 0 else 1)"

text \<open>The output of a pass before the first file is printed.\<close>

fun isSetSourceFile :: "event \<Rightarrow> bool" where
  "isSetSourceFile (SetSourceFile node) = True"
| "isSetSourceFile ev = False"

definition upFront :: "event list \<Rightarrow> event list" where
  "upFront evs = takeWhile (\<lambda>ev. \<not> isSetSourceFile ev) evs"

text \<open>
  What a step of a pass does to the bookkeeping of a helper: it appends to the trace, it
  keeps the budget of the helper, a node that carries \<^verbatim>\<open>EmitEmitHelpers\<close> keeps it, and the
  current source file stays. An action obeys a relation when every result it returns is
  related to the state it started in. The \<^verbatim>\<open>onEmitNode\<close> hook belongs to the transformers:
  the printer's state is out of its reach, except through the emitter it is given; for the
  proofs, the hook makes a step of the pass whenever that emitter does.
\<close>

definition passStep :: "EmitHelper \<Rightarrow> PrintSession \<Rightarrow> PrintSession \<Rightarrow> bool" where
  "passStep h s s' \<longleftrightarrow>
     (\<exists>evs. trace s' = trace s @ evs) \<and>
     helperBudget h s' = helperBudget h s \<and>
     (\<forall>i. EmitEmitHelpers \<in> nodeEmitFlags s i \<longrightarrow> EmitEmitHelpers \<in> nodeEmitFlags s' i) \<and>
     currentSourceFile s' = currentSourceFile s"

definition obeys :: "(PrintSession \<Rightarrow> PrintSession \<Rightarrow> bool) \<Rightarrow> (PrintSession \<Rightarrow> 'a result) \<Rightarrow> bool" where
  "obeys R action \<longleftrightarrow> (\<forall>s u s'. action s = Inr (u, s') \<longrightarrow> R s s')"

definition notificationObeys :: "EmitHelper \<Rightarrow> env \<Rightarrow> bool" where
  "notificationObeys h e \<longleftrightarrow>
     (\<forall>node emitCallback.
        (\<forall>n. obeys (passStep h) (emitCallback n)) \<longrightarrow>
        obeys (passStep h) (onEmitNode (transformContext e) node emitCallback))"

section \<open>Concrete collaborators for the examples\<close>

text \<open>An environment in which no name is global, nothing is substituted and no
  constant value is known; \<^verbatim>\<open>unescapeIdentifier\<close> drops one of three leading
  underscores, as the one of \<^verbatim>\<open>utilities.ts\<close> does.\<close>

definition sampleOptions :: CompilerOptions where
  "sampleOptions =
     \<lparr>noEmitHelpers = False, emitDecoratorMetadata = False, removeComments = False,
      isolatedModules = False, sourceMap = False, inlineSourceMap = False\<rparr>"

definition sampleResolver :: EmitResolver where
  "sampleResolver = \<lparr>hasGlobalName = (\<lambda>nm. False), getConstantValue = (\<lambda>node. None)\<rparr>"

definition sampleContext :: TransformationContext where
  "sampleContext =
     \<lparr>isExpressionSubstitutionEnabled = (\<lambda>node. False),
      isEmitNotificationEnabled = (\<lambda>node. False),
      expressionSubstitution = None,
      identifierSubstitution = None,
      onEmitNode = (\<lambda>node emitCallback. emitCallback (Some node)),
      endLexicalEnvironment = (\<lambda>history. [])\<rparr>"

definition sampleComments :: CommentWriter where
  "sampleComments =
     \<lparr>getLeadingComments = (\<lambda>node skip. []),
      getTrailingComments = (\<lambda>node skip. []),
      getTrailingCommentsOfPosition = (\<lambda>p. [])\<rparr>"

definition sampleUtilities :: Utilities where
  "sampleUtilities =
     \<lparr>unescapeIdentifier = (\<lambda>t. if take 3 t = ''___'' then tl t else t),
      escapeIdentifier = (\<lambda>t. if take 2 t = ''__'' then CHR ''_'' # t else t),
      escapeString = (\<lambda>t. t),
      escapeNonAsciiCharacters = (\<lambda>t. t),
      makeIdentifierFromModuleName = (\<lambda>t. t),
      getExternalModuleName = expression,
      isNodeDescendantOf = (\<lambda>node ancestor. True),
      nodeIsSynthesized = (\<lambda>node. pos node < 0),
      positionIsSynthesized = (\<lambda>p. p < 0),
      isExpression =
        (\<lambda>node. kind node \<in> {Identifier, NumericLiteral, StringLiteral, PropertyAccessExpression,
           ElementAccessExpression, ParenthesizedExpression, OmittedExpression, ClassExpression}),
      isNotEmittedStatement = (\<lambda>node. False),
      isNotEmittedOrPartiallyEmittedNode = (\<lambda>node. False),
      getSourceTextOfNodeFromSourceFile = (\<lambda>sourceFile node includeTrivia. nodeText node),
      getLiteralText = (\<lambda>node sourceFile target. nodeText node),
      declarationNameToString =
        (\<lambda>nm. case nm of None \<Rightarrow> ''(Missing)'' | Some n \<Rightarrow> nodeText n),
      rangeIsOnSingleLine = (\<lambda>range1 sourceFile. True),
      rangeStartPositionsAreOnSameLine = (\<lambda>range1 range2 sourceFile. True),
      rangeEndPositionsAreOnSameLine = (\<lambda>range1 range2 sourceFile. True),
      rangeEndIsOnSameLineAsRangeStart = (\<lambda>range1 range2 sourceFile. True),
      numberToString =
        (\<lambda>v. case v of
           Finite q \<Rightarrow> (if q < 0 then ''-'' else []) @ decimalText (nat \<bar>\<lfloor>q\<rfloor>\<bar>)
         | NaN \<Rightarrow> ''NaN''
         | PlusInfinity \<Rightarrow> ''Infinity''
         | MinusInfinity \<Rightarrow> ''-Infinity''),
      getShebang = (\<lambda>t. None),
      isPrologueDirective = (\<lambda>node. kind node = StringLiteral),
      identifiersOf = (\<lambda>node. {}),
      forEachReturnsFirstTruthy = True\<rparr>"

definition sampleEnv :: env where
  "sampleEnv =
     \<lparr>compilerOptions = sampleOptions, languageVersion = ES5, moduleKindIsSet = False,
      resolver = sampleResolver, transformContext = sampleContext, comments = sampleComments,
      getLine = (\<lambda>evs. length (filter (\<lambda>ev. ev = WriteLine) evs)),
      sourceMappingURL = None, util = sampleUtilities\<rparr>"

text \<open>The state in which a file pass starts: \<^verbatim>\<open>doPrint\<close> has emptied the memo table and
  the set of generated names, the helper flags and the temp flags are as the last reset
  left them.\<close>

definition emptySession :: PrintSession where
  "emptySession =
     \<lparr>nodeToGeneratedName = Map.empty, generatedNameSet = {}, tempFlags = TempFlags_Auto,
      currentSourceFile = None, currentText = None, currentFileIdentifiers = {},
      extendsEmitted = False, decorateEmitted = False, paramEmitted = False,
      awaiterEmitted = False, nodeEmitFlags = (\<lambda>i. {}), trace = []\<rparr>"

text \<open>An identifier with the Node tag: the object \<open>r\<close>, with or without an \<^verbatim>\<open>id\<close>, and its
  \<^verbatim>\<open>original\<close> node.\<close>

definition nodeName :: "nat \<Rightarrow> nat option \<Rightarrow> Node \<Rightarrow> Node" where
  "nodeName r i orig =
     MkNode Identifier r i [] Node {} (- 1) None False None (Some orig) None None None None None
       None []
       None None None None None None None False"

text \<open>A property access \<^verbatim>\<open>E.Name\<close> for which the resolver reports the constant 3, with
  isolated-module mode off or on.\<close>

definition propertyAccessNode :: "nat \<Rightarrow> Node \<Rightarrow> Node \<Rightarrow> Node \<Rightarrow> Node" where
  "propertyAccessNode i target dot nm =
     MkNode PropertyAccessExpression i (Some i) [] GIK_None {} 0 None True None None (Some nm)
       (Some target) (Some dot) None None None []
       None None None None None None None False"

definition constantEnv :: "bool \<Rightarrow> env" where
  "constantEnv isolated =
     sampleEnv
       \<lparr>compilerOptions := sampleOptions\<lparr>isolatedModules := isolated\<rparr>,
        resolver := \<lparr>hasGlobalName = (\<lambda>nm. False),
                      getConstantValue = (\<lambda>node. if ref node = 1 then Some (Finite 3) else None)\<rparr>\<rparr>"

definition enumAccess :: Node where
  "enumAccess =
     propertyAccessNode 1 (plainNode Identifier 2 ''E'') (plainNode DotToken 3 ''.'')
       (plainNode Identifier 4 ''Name'')"

text \<open>A context whose expression hook replaces the object 1 by the identifier \<^verbatim>\<open>y\<close>, the
  object 2.\<close>

definition substitutionEnv :: env where
  "substitutionEnv =
     sampleEnv
       \<lparr>transformContext :=
          sampleContext
            \<lparr>isExpressionSubstitutionEnabled := (\<lambda>node. True),
             expressionSubstitution :=
               Some (\<lambda>node. if ref node = 1 then plainNode Identifier 2 ''y'' else node)\<rparr>\<rparr>"

text \<open>A context whose expression hook replaces the object 1 by another object that carries
  the \<^verbatim>\<open>id\<close> of the object 1, the identifier \<^verbatim>\<open>y\<close>.\<close>

definition sameIdSubstitute :: Node where
  "sameIdSubstitute =
     MkNode Identifier 2 (Some 1) ''y'' GIK_None {} 0 None True None None None None None None
       None None []
       None None None None None None None False"

definition sameIdSubstitutionEnv :: env where
  "sameIdSubstitutionEnv =
     sampleEnv
       \<lparr>transformContext :=
          sampleContext
            \<lparr>isExpressionSubstitutionEnabled := (\<lambda>node. True),
             expressionSubstitution :=
               Some (\<lambda>node. if ref node = 1 then sameIdSubstitute else node)\<rparr>\<rparr>"



section \<open>Theorems on the generated-name resolver\<close>

lemmas sample_defs =
  sampleEnv_def sampleOptions_def sampleResolver_def sampleContext_def sampleComments_def
  sampleUtilities_def emptySession_def

lemmas TempFlags_defs = TempFlags_Auto_def TempFlags_CountMask_def TempFlags__i_def

text \<open>
  Claim C8, as the code has it. For a generated identifier with the Loop tag,
  \<^verbatim>\<open>generateIdentifier\<close> returns the literal \<^verbatim>\<open>_i\<close> when \<^verbatim>\<open>_i\<close> has not been handed out
  in the current temp scope (its bit of \<^verbatim>\<open>tempFlags\<close> is clear) and \<^verbatim>\<open>isUniqueName\<close>
  accepts it, and records the bit. In every other case it draws at once from the Auto
  sequence, exactly as the Auto tag does: no dedicated numeric-suffix name stands between
  the two.
\<close>

theorem generateIdentifier_Loop:
  assumes "autoGenerateKind node = Loop"
  shows "generateIdentifier e (Suc fuel) node s =
           (if tempFlags s AND TempFlags__i = 0 \<and> isUniqueName e s ''_i''
            then Inr (''_i'', s\<lparr>tempFlags := tempFlags s OR TempFlags__i\<rparr>)
            else makeTempVariableName e fuel TempFlags_Auto s)"
  using assms
  by (simp add: makeTempVariableName_def TempFlags_defs Let_def)

theorem generateIdentifier_Loop_witness:
  "autoGenerateKind (generatedIdentifier 7 Loop [] None) = Loop \<and>
   generateIdentifier sampleEnv (Suc 0) (generatedIdentifier 7 Loop [] None) emptySession =
     Inr (''_i'', emptySession\<lparr>tempFlags := TempFlags__i\<rparr>)"
  using generateIdentifier_Loop [of "generatedIdentifier 7 Loop [] None" sampleEnv 0 emptySession]
  by (simp add: generatedIdentifier_def isUniqueName_def sample_defs TempFlags_defs Let_def)

text \<open>
  Claim C8 as stated fails: with \<^verbatim>\<open>_i\<close> among the identifiers of the file and every
  other name free (the name \<^verbatim>\<open>_n\<close> of the doc comment among them), the Loop tag yields
  \<^verbatim>\<open>_a\<close>, the first name of the Auto sequence.
\<close>

theorem generateIdentifier_Loop_counterexample:
  "\<not> isUniqueName sampleEnv (emptySession\<lparr>currentFileIdentifiers := {''_i''}\<rparr>) ''_i'' \<and>
   isUniqueName sampleEnv (emptySession\<lparr>currentFileIdentifiers := {''_i''}\<rparr>) ''_n'' \<and>
   generateIdentifier sampleEnv (Suc (Suc 0)) (generatedIdentifier 7 Loop [] None)
       (emptySession\<lparr>currentFileIdentifiers := {''_i''}\<rparr>) =
     Inr (''_a'', emptySession\<lparr>currentFileIdentifiers := {''_i''}, tempFlags := 1\<rparr>)"
  by (simp add: generatedIdentifier_def makeTempVariableName_def isUniqueName_def sample_defs
      TempFlags_defs fromCharCode_def CharacterCodes_a_def char_of_def Let_def)

lemma namesGrow_refl [simp]: "namesGrow s s"
  by (simp add: namesGrow_def)

lemma namesGrow_trans: "namesGrow s s' \<Longrightarrow> namesGrow s' s'' \<Longrightarrow> namesGrow s s''"
  by (auto simp: namesGrow_def)

lemma namesGrow_tempFlags [simp]: "namesGrow s (s'\<lparr>tempFlags := k\<rparr>) = namesGrow s s'"
  "namesGrow (s\<lparr>tempFlags := k\<rparr>) s' = namesGrow s s'"
  by (simp_all add: namesGrow_def memoized_def)

lemma isUniqueName_tempFlags [simp]:
  "isUniqueName e (s\<lparr>tempFlags := k\<rparr>) nm = isUniqueName e s nm"
  by (simp add: isUniqueName_def)

lemma makeUniqueName_loop_result:
  "makeUniqueName_loop e fuel b i s = Inr (nm, s') \<Longrightarrow>
     isUniqueName e s nm \<and> s' = s\<lparr>generatedNameSet := insert nm (generatedNameSet s)\<rparr>"
  by (induction fuel arbitrary: i) (auto simp: Let_def split: if_splits)

lemma makeUniqueName_result:
  "makeUniqueName e fuel b s = Inr (nm, s') \<Longrightarrow>
     isUniqueName e s nm \<and> s' = s\<lparr>generatedNameSet := insert nm (generatedNameSet s)\<rparr>"
  unfolding makeUniqueName_def by (rule makeUniqueName_loop_result)

lemma makeTempVariableName_loop_result:
  "makeTempVariableName_loop e fuel s = Inr (nm, s') \<Longrightarrow>
     isUniqueName e s nm \<and> (\<exists>k. s' = s\<lparr>tempFlags := k\<rparr>)"
proof (induction fuel arbitrary: s)
  case 0
  then show ?case by simp
next
  case (Suc fuel)
  let ?s1 = "s\<lparr>tempFlags := tempFlags s + 1\<rparr>"
  from Suc.prems have "(isUniqueName e ?s1 nm \<and> s' = ?s1) \<or> makeTempVariableName_loop e fuel ?s1 = Inr (nm, s')"
    by (auto simp: Let_def split: if_splits)
  then show ?case
  proof
    assume "isUniqueName e ?s1 nm \<and> s' = ?s1"
    then show ?thesis by auto
  next
    assume "makeTempVariableName_loop e fuel ?s1 = Inr (nm, s')"
    from Suc.IH [OF this] show ?thesis by auto
  qed
qed

lemma makeTempVariableName_result:
  "makeTempVariableName e fuel fl s = Inr (nm, s') \<Longrightarrow>
     isUniqueName e s nm \<and> (\<exists>k. s' = s\<lparr>tempFlags := k\<rparr>)"
  unfolding makeTempVariableName_def
  by (auto simp: Let_def split: if_splits dest: makeTempVariableName_loop_result)

lemma namesGrow_insert [simp]:
  "namesGrow s (s\<lparr>generatedNameSet := insert nm (generatedNameSet s)\<rparr>)"
  by (auto simp: namesGrow_def memoized_def)


lemma makeUniqueName_namesGrow:
  "makeUniqueName e fuel b s = Inr (nm, s') \<Longrightarrow> namesGrow s s'"
  by (auto dest: makeUniqueName_result)

lemma makeTempVariableName_namesGrow:
  "makeTempVariableName e fuel fl s = Inr (nm, s') \<Longrightarrow> namesGrow s s'"
  by (auto dest: makeTempVariableName_result)


lemma namesGrow_memo:
  assumes "namesGrow s s'" and "memoized s i = None"
  shows "namesGrow s (s'\<lparr>nodeToGeneratedName := (nodeToGeneratedName s')(i \<mapsto> u)\<rparr>)"
  using assms by (auto simp: namesGrow_def memoized_def split: option.splits if_splits)

lemma knot_namesGrow:
  "(\<forall>node incl s t s'. getTextOfNode e fuel node incl s = Inr (t, s') \<longrightarrow> namesGrow s s') \<and>
   (\<forall>node s t s'. getGeneratedIdentifier e fuel node s = Inr (t, s') \<longrightarrow> namesGrow s s') \<and>
   (\<forall>node s t s'. generateIdentifier e fuel node s = Inr (t, s') \<longrightarrow> namesGrow s s') \<and>
   (\<forall>node s t s'. generateNameForNode e fuel node s = Inr (t, s') \<longrightarrow> namesGrow s s') \<and>
   (\<forall>node s t s'. generateNameForModuleOrEnum e fuel node s = Inr (t, s') \<longrightarrow> namesGrow s s')"
proof (induction fuel)
  case 0
  show ?case by simp
next
  case (Suc fuel)
  note IH = Suc.IH
  have IH1: "namesGrow s s'" if "getTextOfNode e fuel node incl s = Inr (t, s')" for node incl s t s'
    using IH that by (elim conjE) auto
  have IH2: "namesGrow s s'" if "getGeneratedIdentifier e fuel node s = Inr (t, s')" for node s t s'
    using IH that by (elim conjE) auto
  have IH3: "namesGrow s s'" if "generateIdentifier e fuel node s = Inr (t, s')" for node s t s'
    using IH that by (elim conjE) auto
  have IH4: "namesGrow s s'" if "generateNameForNode e fuel node s = Inr (t, s')" for node s t s'
    using IH that by (elim conjE) auto
  have IH5: "namesGrow s s'" if "generateNameForModuleOrEnum e fuel node s = Inr (t, s')" for node s t s'
    using IH that by (elim conjE) auto
  have C1: "namesGrow s s'" if "getTextOfNode e (Suc fuel) node incl s = Inr (t, s')" for node incl s t s'
    using that by (auto split: if_splits dest: IH1 IH2)
  have C2: "namesGrow s s'" if "getGeneratedIdentifier e (Suc fuel) node s = Inr (t, s')" for node s t s'
    using that
    by (auto split: option.splits sum.splits prod.splits dest!: IH3 intro: namesGrow_memo)
  have C3: "namesGrow s s'" if "generateIdentifier e (Suc fuel) node s = Inr (t, s')" for node s t s'
    using that
    by (auto split: GeneratedIdentifierKind.splits
        dest: IH4 makeTempVariableName_namesGrow makeUniqueName_namesGrow)
  have C4: "namesGrow s s'" if "generateNameForNode e (Suc fuel) node s = Inr (t, s')" for node s t s'
    using that
    by (auto simp: generateNameForImportOrExportDeclaration_def generateNameForExportDefault_def
          generateNameForClassExpression_def
        split: if_splits sum.splits prod.splits option.splits
        dest: IH1 IH5 makeTempVariableName_namesGrow makeUniqueName_namesGrow
        intro: namesGrow_trans)
  have C5: "namesGrow s s'" if "generateNameForModuleOrEnum e (Suc fuel) node s = Inr (t, s')" for node s t s'
    using that
    by (auto split: if_splits sum.splits prod.splits option.splits
        dest: IH1 makeUniqueName_namesGrow intro: namesGrow_trans)
  show ?case using C1 C2 C3 C4 C5 by blast
qed


lemmas getGeneratedIdentifier_namesGrow = knot_namesGrow [THEN conjunct2, THEN conjunct1, rule_format]
lemmas generateIdentifier_namesGrow =
  knot_namesGrow [THEN conjunct2, THEN conjunct2, THEN conjunct1, rule_format]

lemma resolveUse_namesGrow:
  "resolveUse e fuel u s = Inr (ts, s') \<Longrightarrow> namesGrow s s'"
  "resolveUses e fuel us s = Inr (ts, s') \<Longrightarrow> namesGrow s s'"
proof (induction e fuel u s and e fuel us s arbitrary: ts s' and ts s'
    rule: resolveUse_resolveUses.induct)
  case (1 e fuel node s)
  then show ?case
    by (auto split: sum.splits prod.splits dest: getGeneratedIdentifier_namesGrow)
next
  case (2 e fuel uses s)
  then show ?case
    by (auto split: sum.splits prod.splits)
next
  case (3 e fuel s)
  then show ?case by simp
next
  case (4 e fuel u us s)
  then show ?case
    by (auto split: sum.splits prod.splits intro: namesGrow_trans)
qed

lemma getGeneratedIdentifier_memo:
  assumes "getGeneratedIdentifier e fuel node s = Inr (t, s1)" and "t \<noteq> []"
  shows "\<exists>i. getNodeIdForGeneratedIdentifier node = Some i \<and> memoized s1 i = Some t"
proof (cases fuel)
  case 0
  with assms show ?thesis by simp
next
  case (Suc n)
  with assms show ?thesis
    by (auto simp: memoized_def split: option.splits sum.splits prod.splits if_splits)
qed

lemma getGeneratedIdentifier_hit:
  assumes "getNodeIdForGeneratedIdentifier node = Some i" and "memoized s i = Some t"
  shows "getGeneratedIdentifier e (Suc fuel) node s = Inr (t, s)"
  using assms by simp

text \<open>
  Claim C2. Once \<^verbatim>\<open>getGeneratedIdentifier\<close> has resolved a generated identifier to a text,
  the text is memoized under the node's identity, and after any further requests of the
  same pass (\<open>resolveUses\<close>: references to other identifiers, nested temp scopes) a lookup
  of the same node returns that text and leaves the state as it is. The memo test
  \<^verbatim>\<open>nodeToGeneratedName[id] || ...\<close> takes the empty string for an absent entry, hence the
  text is required to be non-empty, as the names of \<^verbatim>\<open>makeTempVariableName\<close> and
  \<^verbatim>\<open>makeUniqueName\<close> are.
\<close>

theorem getGeneratedIdentifier_memoized:
  assumes "getGeneratedIdentifier e fuel node s = Inr (t, s1)"
    and "t \<noteq> []"
    and "resolveUses e fuel' uses s1 = Inr (texts, s2)"
  shows "getGeneratedIdentifier e (Suc fuel'') node s2 = Inr (t, s2)"
proof -
  from assms(1,2) obtain i where i: "getNodeIdForGeneratedIdentifier node = Some i"
    and m: "memoized s1 i = Some t"
    using getGeneratedIdentifier_memo by blast
  from assms(3) have "namesGrow s1 s2" by (rule resolveUse_namesGrow(2))
  with m have "memoized s2 i = Some t" by (simp add: namesGrow_def)
  with i show ?thesis by (rule getGeneratedIdentifier_hit)
qed




lemmas eval_names =
  generatedIdentifier_def plainNode_def isUniqueName_def sample_defs TempFlags_defs Let_def
  makeTempVariableName_def makeUniqueName_def getNodeIdForGeneratedIdentifier_def getNodeId_def
  memoized_def decimalText.simps digitChar_def fromCharCode_def CharacterCodes_a_def char_of_def
  getSourceNodeForGeneratedName.simps isIdentifier_def generateNameForExportDefault_def

text \<open>The Unique identifier \<^verbatim>\<open>x\<close> resolves to \<^verbatim>\<open>x_1\<close>, a temp scope with another
  identifier follows, and the second lookup gives \<^verbatim>\<open>x_1\<close> again.\<close>

theorem getGeneratedIdentifier_memoized_witness:
  "getGeneratedIdentifier sampleEnv (Suc (Suc (Suc 0))) (generatedIdentifier 7 Unique ''x'' None)
      emptySession =
     Inr (''x_1'', emptySession\<lparr>generatedNameSet := {''x_1''},
                                  nodeToGeneratedName := [Given 7 \<mapsto> ''x_1'']\<rparr>) \<and>
   resolveUses sampleEnv (Suc (Suc (Suc 0))) [TempScope [Reference (generatedIdentifier 8 Auto [] None)]]
      (emptySession\<lparr>generatedNameSet := {''x_1''}, nodeToGeneratedName := [Given 7 \<mapsto> ''x_1'']\<rparr>) =
     Inr ([''_a''], emptySession\<lparr>generatedNameSet := {''x_1''},
                                  nodeToGeneratedName := [Given 7 \<mapsto> ''x_1'', Given 8 \<mapsto> ''_a'']\<rparr>) \<and>
   getGeneratedIdentifier sampleEnv (Suc 0) (generatedIdentifier 7 Unique ''x'' None)
      (emptySession\<lparr>generatedNameSet := {''x_1''},
                    nodeToGeneratedName := [Given 7 \<mapsto> ''x_1'', Given 8 \<mapsto> ''_a'']\<rparr>) =
     Inr (''x_1'', emptySession\<lparr>generatedNameSet := {''x_1''},
                                  nodeToGeneratedName := [Given 7 \<mapsto> ''x_1'', Given 8 \<mapsto> ''_a'']\<rparr>)"
proof -
  let ?n = "generatedIdentifier 7 Unique ''x'' None"
  let ?s1 = "emptySession\<lparr>generatedNameSet := {''x_1''}, nodeToGeneratedName := [Given 7 \<mapsto> ''x_1'']\<rparr>"
  let ?s2 = "emptySession\<lparr>generatedNameSet := {''x_1''},
                nodeToGeneratedName := [Given 7 \<mapsto> ''x_1'', Given 8 \<mapsto> ''_a'']\<rparr>"
  have h1: "getGeneratedIdentifier sampleEnv (Suc (Suc (Suc 0))) ?n emptySession = Inr (''x_1'', ?s1)"
    by (simp add: eval_names)
  have h2: "''x_1'' \<noteq> []" by simp
  have h3: "resolveUses sampleEnv (Suc (Suc (Suc 0)))
      [TempScope [Reference (generatedIdentifier 8 Auto [] None)]] ?s1 = Inr ([''_a''], ?s2)"
    by (simp add: eval_names)
  from getGeneratedIdentifier_memoized [OF h1 h2 h3, of 0] h1 h3 show ?thesis by simp
qed

subsection \<open>The source node of a generated name\<close>

lemma originalChain_tl:
  "tl (originalChain node) = (case original node of None \<Rightarrow> [] | Some orig \<Rightarrow> originalChain orig)"
  by (subst originalChain.simps) simp

lemma getSourceNodeForGeneratedName_chain:
  "getSourceNodeForGeneratedName node = sourceNodeOfChain node"
proof (induction node rule: getSourceNodeForGeneratedName.induct)
  case (1 node)
  show ?case
  proof (cases "original node")
    case None
    then show ?thesis
      by (simp add: getSourceNodeForGeneratedName.simps sourceNodeOfChain_def originalChain_tl)
  next
    case (Some orig)
    show ?thesis
    proof (cases "isIdentifier orig \<and> autoGenerateKind orig = Node \<and> nodeId orig \<noteq> nodeId node")
      case True
      then show ?thesis
        using Some
        by (simp add: getSourceNodeForGeneratedName.simps [of node] sourceNodeOfChain_def
            originalChain_tl originalChain.simps [of orig])
    next
      case False
      with 1 [OF Some] have "getSourceNodeForGeneratedName orig = sourceNodeOfChain orig" by simp
      then show ?thesis
        using Some False
        by (auto simp: getSourceNodeForGeneratedName.simps [of node] sourceNodeOfChain_def
            originalChain_tl [of node] originalChain_tl [of orig] originalChain.simps [of orig])
    qed
  qed
qed

lemma stopAt_in_chain:
  "stopAtDistinctNodeIdentifier previous rest \<in> set (previous # rest)"
  by (induction rest arbitrary: previous) auto

lemma sourceNodeOfChain_in_chain: "sourceNodeOfChain node \<in> set (originalChain node)"
  using stopAt_in_chain [of node "tl (originalChain node)"]
  by (subst originalChain.simps) (simp add: sourceNodeOfChain_def originalChain_tl)

lemma sourceNodeOfChain_clones:
  assumes "original a = Some orig" and "original b = Some orig" and "nodeId a = nodeId b"
  shows "sourceNodeOfChain a = sourceNodeOfChain b"
  using assms by (simp add: sourceNodeOfChain_def originalChain_tl originalChain.simps [of orig])


text \<open>
  Claim C10. \<^verbatim>\<open>getSourceNodeForGeneratedName\<close> follows the chain of \<^verbatim>\<open>original\<close>
  back-references of a node and ends at the first identifier with the Node tag whose
  \<^verbatim>\<open>id\<close> differs from the \<^verbatim>\<open>id\<close> of the node before it (two absent ids do not differ), or at
  the end of the chain. For an identifier with the Node tag the memo key is \<^verbatim>\<open>getNodeId\<close> of
  that node, not of the identifier. Hence, for two identifiers \<open>a\<close> and \<open>b\<close> with the Node
  tag whose chains end in the same source node: once \<open>a\<close> is resolved to a non-empty text,
  a lookup of \<open>b\<close> after any further requests of the same pass returns that text and leaves
  the state as it is.
\<close>

theorem getGeneratedIdentifier_Node_key:
  assumes "autoGenerateKind a = Node" and "autoGenerateKind b = Node"
    and "sourceNodeOfChain a = sourceNodeOfChain b"
    and "getGeneratedIdentifier e fuel a s = Inr (t, s1)"
    and "t \<noteq> []"
    and "resolveUses e fuel' uses s1 = Inr (texts, s2)"
  shows "(\<forall>node. getSourceNodeForGeneratedName node = sourceNodeOfChain node) \<and>
         sourceNodeOfChain a \<in> set (originalChain a) \<and>
         getNodeIdForGeneratedIdentifier a = Some (getNodeId (sourceNodeOfChain a)) \<and>
         getNodeIdForGeneratedIdentifier b = Some (getNodeId (sourceNodeOfChain a)) \<and>
         getGeneratedIdentifier e (Suc fuel'') b s2 = Inr (t, s2)"
proof -
  have ka: "getNodeIdForGeneratedIdentifier a = Some (getNodeId (sourceNodeOfChain a))"
    using assms(1)
    by (simp add: getNodeIdForGeneratedIdentifier_def getSourceNodeForGeneratedName_chain)
  have kb: "getNodeIdForGeneratedIdentifier b = Some (getNodeId (sourceNodeOfChain a))"
    using assms(2,3)
    by (simp add: getNodeIdForGeneratedIdentifier_def getSourceNodeForGeneratedName_chain)
  from assms(4,5) ka have "memoized s1 (getNodeId (sourceNodeOfChain a)) = Some t"
    using getGeneratedIdentifier_memo by fastforce
  moreover from assms(6) have "namesGrow s1 s2" by (rule resolveUse_namesGrow(2))
  ultimately have "memoized s2 (getNodeId (sourceNodeOfChain a)) = Some t"
    by (simp add: namesGrow_def)
  with kb have "getGeneratedIdentifier e (Suc fuel'') b s2 = Inr (t, s2)"
    by (rule getGeneratedIdentifier_hit)
  with ka kb show ?thesis
    by (simp add: getSourceNodeForGeneratedName_chain sourceNodeOfChain_in_chain)
qed

text \<open>Two clones (the objects 2 and 3, neither with an \<^verbatim>\<open>id\<close>) of a name without an \<^verbatim>\<open>id\<close>
  (the object 4) for the function declaration with the \<^verbatim>\<open>id\<close> 1: both chains run through
  the object 4 to the declaration, the key of both is 1 and not the assigned id of the clone,
  and after a request in a nested temp scope the second clone resolves to \<^verbatim>\<open>default_1\<close> as
  the first has. A clone with the \<^verbatim>\<open>id\<close> 9 of a name with the \<^verbatim>\<open>id\<close> 8 stops at that name.\<close>

lemmas eval_chain =
  nodeName_def sourceNodeOfChain_def originalChain.simps eval_names
  generateNameForExportDefault_def

theorem getGeneratedIdentifier_Node_key_witness:
  "ref (nodeName 2 None (nodeName 4 None (plainNode FunctionDeclaration 1 []))) \<noteq>
     ref (nodeName 3 None (nodeName 4 None (plainNode FunctionDeclaration 1 []))) \<and>
   sourceNodeOfChain (nodeName 2 None (nodeName 4 None (plainNode FunctionDeclaration 1 []))) =
     plainNode FunctionDeclaration 1 [] \<and>
   sourceNodeOfChain (nodeName 3 None (nodeName 4 None (plainNode FunctionDeclaration 1 []))) =
     plainNode FunctionDeclaration 1 [] \<and>
   getNodeId (nodeName 2 None (nodeName 4 None (plainNode FunctionDeclaration 1 []))) = Assigned 2 \<and>
   getNodeIdForGeneratedIdentifier
     (nodeName 2 None (nodeName 4 None (plainNode FunctionDeclaration 1 []))) = Some (Given 1) \<and>
   getNodeIdForGeneratedIdentifier
     (nodeName 3 None (nodeName 4 None (plainNode FunctionDeclaration 1 []))) = Some (Given 1) \<and>
   getGeneratedIdentifier sampleEnv (Suc (Suc (Suc (Suc (Suc 0)))))
     (nodeName 2 None (nodeName 4 None (plainNode FunctionDeclaration 1 []))) emptySession =
     Inr (''default_1'', emptySession\<lparr>generatedNameSet := {''default_1''},
                                       nodeToGeneratedName := [Given 1 \<mapsto> ''default_1'']\<rparr>) \<and>
   resolveUses sampleEnv (Suc (Suc (Suc 0)))
     [TempScope [Reference (generatedIdentifier 8 Auto [] None)]]
     (emptySession\<lparr>generatedNameSet := {''default_1''},
                   nodeToGeneratedName := [Given 1 \<mapsto> ''default_1'']\<rparr>) =
     Inr ([''_a''], emptySession\<lparr>generatedNameSet := {''default_1''},
             nodeToGeneratedName := [Given 1 \<mapsto> ''default_1'', Given 8 \<mapsto> ''_a'']\<rparr>) \<and>
   getGeneratedIdentifier sampleEnv (Suc 0)
     (nodeName 3 None (nodeName 4 None (plainNode FunctionDeclaration 1 [])))
     (emptySession\<lparr>generatedNameSet := {''default_1''},
             nodeToGeneratedName := [Given 1 \<mapsto> ''default_1'', Given 8 \<mapsto> ''_a'']\<rparr>) =
     Inr (''default_1'', emptySession\<lparr>generatedNameSet := {''default_1''},
             nodeToGeneratedName := [Given 1 \<mapsto> ''default_1'', Given 8 \<mapsto> ''_a'']\<rparr>) \<and>
   sourceNodeOfChain (nodeName 5 (Some 9) (nodeName 6 (Some 8) (plainNode FunctionDeclaration 1 []))) =
     nodeName 6 (Some 8) (plainNode FunctionDeclaration 1 []) \<and>
   getNodeIdForGeneratedIdentifier
     (nodeName 5 (Some 9) (nodeName 6 (Some 8) (plainNode FunctionDeclaration 1 []))) = Some (Given 8)"
proof -
  let ?d = "plainNode FunctionDeclaration 1 []"
  let ?a = "nodeName 2 None (nodeName 4 None ?d)"
  let ?b = "nodeName 3 None (nodeName 4 None ?d)"
  let ?c = "nodeName 5 (Some 9) (nodeName 6 (Some 8) ?d)"
  let ?s1 = "emptySession\<lparr>generatedNameSet := {''default_1''},
                nodeToGeneratedName := [Given 1 \<mapsto> ''default_1'']\<rparr>"
  let ?s2 = "emptySession\<lparr>generatedNameSet := {''default_1''},
             nodeToGeneratedName := [Given 1 \<mapsto> ''default_1'', Given 8 \<mapsto> ''_a'']\<rparr>"
  have ka: "autoGenerateKind ?a = Node" and kb: "autoGenerateKind ?b = Node"
    and kc: "autoGenerateKind ?c = Node"
    by (simp_all add: nodeName_def)
  have sa: "sourceNodeOfChain ?a = ?d" and sb: "sourceNodeOfChain ?b = ?d"
    and sc: "sourceNodeOfChain ?c = nodeName 6 (Some 8) ?d"
    by (simp_all add: eval_chain)
  have src: "sourceNodeOfChain ?a = sourceNodeOfChain ?b" by (simp only: sa sb)
  have h1: "getGeneratedIdentifier sampleEnv (Suc (Suc (Suc (Suc (Suc 0))))) ?a emptySession =
      Inr (''default_1'', ?s1)"
    by (simp add: eval_chain)
  have h2: "''default_1'' \<noteq> []" by simp
  have h3: "resolveUses sampleEnv (Suc (Suc (Suc 0)))
     [TempScope [Reference (generatedIdentifier 8 Auto [] None)]] ?s1 = Inr ([''_a''], ?s2)"
    by (simp add: eval_names)
  have ida: "getNodeId ?a = Assigned 2" by (simp add: nodeName_def getNodeId_def)
  have idd: "getNodeId ?d = Given 1" by (simp add: plainNode_def getNodeId_def)
  have "getNodeId (nodeName 6 (Some 8) ?d) = Given 8" by (simp add: nodeName_def getNodeId_def)
  with kc have kc': "getNodeIdForGeneratedIdentifier ?c = Some (Given 8)"
    by (simp only: getNodeIdForGeneratedIdentifier_def getSourceNodeForGeneratedName_chain sc
        GeneratedIdentifierKind.case)
  from getGeneratedIdentifier_Node_key [OF ka kb src h1 h2 h3, of 0]
  have "getNodeIdForGeneratedIdentifier ?a = Some (Given 1)"
    and "getNodeIdForGeneratedIdentifier ?b = Some (Given 1)"
    and "getGeneratedIdentifier sampleEnv (Suc 0) ?b ?s2 = Inr (''default_1'', ?s2)"
    unfolding sa idd by blast+
  with h1 h3 sa sb sc ida kc' show ?thesis by (simp add: nodeName_def)
qed
subsection \<open>The temp counter\<close>










subsection \<open>Temp names are told apart by their counts\<close>















section \<open>Theorems on the emitters\<close>

lemmas eval_emit =
  plainNode_def propertyAccessNode_def sample_defs Let_def emitEvents_def writeText_def
  writeLine_def increaseIndent_def decreaseIndent_def increaseIndentIf_def decreaseIndentIf_def
  emitNodeWithNotificationOption_def emitNodeWithWorker_def shouldSkipCommentsForNode_def
  shouldIgnoreSourceMapForNode_def shouldIgnoreSourceMapForChildren_def getNodeEmitFlags_def
  setNodeEmitFlags_def getNodeId_def tryEmitConstantValue_def tryGetConstEnumValue_def
  isPropertyAccessExpression_def isElementAccessExpression_def isIdentifier_def
  isGeneratedIdentifier_def isLiteralExpression_def needsIndentation_def
  skipSynthesizedParentheses.simps needsDotDotForPropertyAccess_def emitIdentifier_def
  emitLiteral_def isTemplateLiteralKind_def decimalText.simps digitChar_def fromCharCode_def
  char_of_def

lemmas ListFormat_defs =
  ListFormat_None_def ListFormat_SingleLine_def ListFormat_MultiLine_def
  ListFormat_PreserveLines_def ListFormat_LinesMask_def ListFormat_NotDelimited_def
  ListFormat_BarDelimited_def ListFormat_AmpersandDelimited_def ListFormat_CommaDelimited_def
  ListFormat_DelimitersMask_def ListFormat_AllowTrailingComma_def ListFormat_Indented_def
  ListFormat_SpaceBetweenBraces_def ListFormat_SpaceBetweenSiblings_def ListFormat_Braces_def
  ListFormat_Parenthesis_def ListFormat_AngleBrackets_def ListFormat_SquareBrackets_def
  ListFormat_BracketsMask_def ListFormat_OptionalIfUndefined_def ListFormat_OptionalIfEmpty_def
  ListFormat_Optional_def ListFormat_PreferNewLine_def ListFormat_NoTrailingNewLine_def
  ListFormat_CallExpressionArguments_def ListFormat_ClassMembers_def
  ListFormat_CaseOrDefaultClauseStatements_def

text \<open>
  Claim C6. For an empty child sequence \<^verbatim>\<open>emitNodeList\<close> writes nothing at all when the
  format has the \<^verbatim>\<open>OptionalIfEmpty\<close> bit: the test comes before any bracket is written.
  Otherwise, when the bracket bits are set, it writes the opening bracket, a line break
  exactly when the format has the \<^verbatim>\<open>MultiLine\<close> bit (else one space when it has
  \<^verbatim>\<open>SpaceBetweenBraces\<close>), and the closing bracket; without bracket bits only the line
  break or space is written. The brackets are those of the table \<^verbatim>\<open>brackets\<close>; bracket bits
  that are no index of the table make \<^verbatim>\<open>getOpeningBracket\<close> fail with a type error.
\<close>

theorem emitNodeList_empty:
  assumes "elements c = []"
  shows "emitNodeList e emitCallback parentNode (Some c) format startArg countArg s =
           (if hasFormat format ListFormat_OptionalIfEmpty then Inr ((), s)
            else if \<not> hasFormat format ListFormat_BracketsMask then
              Inr ((), emitEvents
                         (if hasFormat format ListFormat_MultiLine then [WriteLine]
                          else if hasFormat format ListFormat_SpaceBetweenBraces then [Write '' '']
                          else []) s)
            else (case brackets (format AND ListFormat_BracketsMask) of
                    None \<Rightarrow> Inl TypeError
                  | Some (opening, closing) \<Rightarrow>
                      Inr ((), emitEvents
                                 ([Write opening]
                                  @ (if hasFormat format ListFormat_MultiLine then [WriteLine]
                                     else if hasFormat format ListFormat_SpaceBetweenBraces
                                     then [Write '' '']
                                     else [])
                                  @ [Write closing]) s)))"
  using assms
  by (auto simp: emitNodeList_def Let_def writeBracket_def getOpeningBracket_def
      getClosingBracket_def writeText_def writeLine_def emitEvents_def
      split: option.splits)


text \<open>No element under an optional-if-empty multi-line format with braces: nothing is
  written; under the braces and the format of class members: \<^verbatim>\<open>{\<close>, a line break, \<^verbatim>\<open>}\<close>;
  under the format of call arguments: \<^verbatim>\<open>()\<close>.\<close>

theorem emitNodeList_empty_witness:
  "elements \<lparr>elements = [], hasTrailingComma = False\<rparr> = [] \<and>
   emitNodeList sampleEnv (emit sampleEnv 0) (plainNode SourceFile 1 [])
     (Some \<lparr>elements = [], hasTrailingComma = False\<rparr>)
     (ListFormat_Braces OR ListFormat_CaseOrDefaultClauseStatements) None None emptySession =
     Inr ((), emptySession) \<and>
   emitNodeList sampleEnv (emit sampleEnv 0) (plainNode SourceFile 1 [])
     (Some \<lparr>elements = [], hasTrailingComma = False\<rparr>)
     (ListFormat_Braces OR ListFormat_ClassMembers) None None emptySession =
     Inr ((), emptySession\<lparr>trace := [Write ''{'', WriteLine, Write ''}'']\<rparr>) \<and>
   emitNodeList sampleEnv (emit sampleEnv 0) (plainNode SourceFile 1 [])
     (Some \<lparr>elements = [], hasTrailingComma = False\<rparr>)
     ListFormat_CallExpressionArguments None None emptySession =
     Inr ((), emptySession\<lparr>trace := [Write ''('', Write '')'']\<rparr>)"
proof -
  let ?c = "\<lparr>elements = [], hasTrailingComma = False\<rparr>"
  have h: "elements ?c = []" by simp
  note t = emitNodeList_empty [OF h, of sampleEnv "emit sampleEnv 0" "plainNode SourceFile 1 []"
      _ None None emptySession]
  show ?thesis
    unfolding t
    by (simp add: hasFormat_def brackets_def ListFormat_defs emitEvents_def emptySession_def)
qed

text \<open>
  Claim C9. \<^verbatim>\<open>emitNodeWithWorker\<close> calls \<^verbatim>\<open>emitStart\<close> on the node once, after the leading
  comments and before it runs the worker, and once the worker has returned it calls
  \<^verbatim>\<open>emitEnd\<close> on the same node once, before the trailing comments: whatever the worker adds
  to the trace (\<open>emitted\<close>, possibly nothing) stands between the two marks. The calls
  are made for every node; the source map writer receives the two suppression predicates
  with them.
\<close>

theorem emitNodeWithWorker_marks:
  assumes "worker node
             (emitEvents
                [EmitLeadingComments node
                   (getLeadingComments (comments e) node (shouldSkipCommentsForNode e s)),
                 EmitStart node (shouldIgnoreSourceMapForNode e s node)
                   (shouldIgnoreSourceMapForChildren e s node)] s) = Inr (u, s2)"
    and "trace s2 = trace s
           @ [EmitLeadingComments node
                (getLeadingComments (comments e) node (shouldSkipCommentsForNode e s)),
              EmitStart node (shouldIgnoreSourceMapForNode e s node)
                (shouldIgnoreSourceMapForChildren e s node)]
           @ emitted"
  shows "\<exists>s'. emitNodeWithWorker e (Some node) worker s = Inr ((), s') \<and>
              trace s' = trace s
                @ [EmitLeadingComments node
                     (getLeadingComments (comments e) node (shouldSkipCommentsForNode e s)),
                   EmitStart node (shouldIgnoreSourceMapForNode e s node)
                     (shouldIgnoreSourceMapForChildren e s node)]
                @ emitted
                @ [EmitEnd node (shouldIgnoreSourceMapForNode e s2 node)
                     (shouldIgnoreSourceMapForChildren e s2 node),
                   EmitTrailingComments node
                     (getTrailingComments (comments e) node (shouldSkipCommentsForNode e s))]"
  using assms by (simp add: emitNodeWithWorker_def Let_def emitEvents_def)

text \<open>An omitted expression writes no text and is still bracketed by the two marks.\<close>

theorem emitNodeWithWorker_marks_witness:
  "emitNodeWithWorker sampleEnv (Some (plainNode OmittedExpression 1 []))
      (emitExpressionWorker sampleEnv (Suc 0)) emptySession =
     Inr ((), emptySession\<lparr>trace :=
        [EmitLeadingComments (plainNode OmittedExpression 1 []) [],
         EmitStart (plainNode OmittedExpression 1 []) False False,
         EmitEnd (plainNode OmittedExpression 1 []) False False,
         EmitTrailingComments (plainNode OmittedExpression 1 []) []]\<rparr>)"
proof -
  let ?n = "plainNode OmittedExpression 1 []"
  let ?s1 = "emitEvents
                [EmitLeadingComments ?n
                   (getLeadingComments (comments sampleEnv) ?n (shouldSkipCommentsForNode sampleEnv emptySession)),
                 EmitStart ?n (shouldIgnoreSourceMapForNode sampleEnv emptySession ?n)
                   (shouldIgnoreSourceMapForChildren sampleEnv emptySession ?n)] emptySession"
  have h1: "emitExpressionWorker sampleEnv (Suc 0) ?n ?s1 = Inr ((), ?s1)"
    by (simp add: plainNode_def sample_defs)
  have h2: "trace ?s1 = trace emptySession
           @ [EmitLeadingComments ?n
                (getLeadingComments (comments sampleEnv) ?n (shouldSkipCommentsForNode sampleEnv emptySession)),
              EmitStart ?n (shouldIgnoreSourceMapForNode sampleEnv emptySession ?n)
                (shouldIgnoreSourceMapForChildren sampleEnv emptySession ?n)]
           @ []"
    by (simp add: emitEvents_def)
  from emitNodeWithWorker_marks
         [where worker = "emitExpressionWorker sampleEnv (Suc 0)" and node = ?n and e = sampleEnv
            and s = emptySession and emitted = "[]", OF h1 h2]
  show ?thesis
    by (auto simp: emitNodeWithWorker_def Let_def emitEvents_def plainNode_def sample_defs
        shouldIgnoreSourceMapForNode_def shouldIgnoreSourceMapForChildren_def
        shouldSkipCommentsForNode_def getNodeEmitFlags_def)
qed


lemma tryEmitConstantValue_isolated:
  "isolatedModules (compilerOptions e) \<Longrightarrow> tryEmitConstantValue e fuel node s = Inr (False, s)"
  by (simp add: tryEmitConstantValue_def tryGetConstEnumValue_def)

text \<open>
  Claim C4. With isolated-module mode off and a constant value reported by the resolver,
  the emitter of a property access writes the text of the value and, unless
  \<^verbatim>\<open>removeComments\<close> is set, a comment with \<^verbatim>\<open>declarationNameToString\<close> of the member name,
  and nothing else: no part of the access expression is emitted. The emitter of an element
  access does the same, the comment naming the text of the argument expression. With
  isolated-module mode on \<^verbatim>\<open>tryEmitConstantValue\<close> writes nothing and answers false,
  whatever the resolver reports, and both emitters emit the access expression itself.
\<close>

theorem tryEmitConstantValue_literal:
  "(\<not> isolatedModules (compilerOptions e) \<and> getConstantValue (resolver e) node = Some v \<longrightarrow>
      (kind node = PropertyAccessExpression \<longrightarrow>
         emitPropertyAccessExpression e (Suc fuel) node s =
           Inr ((), emitEvents
                      (Write (numberToString (util e) v)
                       # (if removeComments (compilerOptions e) then []
                          else [Write ('' /* '' @ declarationNameToString (util e) (name node)
                                       @ '' */'')])) s)) \<and>
      (kind node = ElementAccessExpression \<and> removeComments (compilerOptions e) \<longrightarrow>
         emitElementAccessExpression e (Suc fuel) node s =
           Inr ((), emitEvents [Write (numberToString (util e) v)] s)) \<and>
      (kind node = ElementAccessExpression \<and> \<not> removeComments (compilerOptions e) \<and>
       argumentExpression node = Some argument \<and>
       getTextOfNode e fuel argument None (emitEvents [Write (numberToString (util e) v)] s)
         = Inr (propertyName, s2) \<longrightarrow>
         emitElementAccessExpression e (Suc fuel) node s =
           Inr ((), emitEvents [Write ('' /* '' @ propertyName @ '' */'')] s2))) \<and>
   (isolatedModules (compilerOptions e) \<longrightarrow>
      tryEmitConstantValue e fuel node s = Inr (False, s) \<and>
      emitElementAccessExpression e (Suc fuel) node s =
        runAll [emitExpression e fuel (expression node), writeText ''['',
                emitExpression e fuel (argumentExpression node), writeText '']''] s \<and>
      emitPropertyAccessExpression e (Suc fuel) node s =
        (case (needsIndentation e s (Some node) (expression node) (dotToken node),
               needsIndentation e s (Some node) (dotToken node) (name node),
               expression node) of
           (Inr indentBeforeDot, Inr indentAfterDot, Some target) \<Rightarrow>
             (case (if \<not> indentBeforeDot
                    then needsDotDotForPropertyAccess e fuel target s
                    else Inr (False, s)) of
                Inl err \<Rightarrow> Inl err
              | Inr (shouldEmitDotDot, s2) \<Rightarrow>
                  runAll
                    [emitExpression e fuel (expression node),
                     increaseIndentIf indentBeforeDot None,
                     writeText (if shouldEmitDotDot then ''..'' else ''.''),
                     increaseIndentIf indentAfterDot None,
                     emit e fuel (name node),
                     decreaseIndentIf indentBeforeDot indentAfterDot] s2)
         | _ \<Rightarrow> Inl TypeError))"
proof -
  have A: "emitPropertyAccessExpression e (Suc fuel) node s =
           Inr ((), emitEvents
                      (Write (numberToString (util e) v)
                       # (if removeComments (compilerOptions e) then []
                          else [Write ('' /* '' @ declarationNameToString (util e) (name node)
                                       @ '' */'')])) s)"
    if "\<not> isolatedModules (compilerOptions e)" "getConstantValue (resolver e) node = Some v"
       "kind node = PropertyAccessExpression"
    using that
    by (simp add: tryEmitConstantValue_def tryGetConstEnumValue_def isPropertyAccessExpression_def
        Let_def emitEvents_def)
  have B: "emitElementAccessExpression e (Suc fuel) node s =
           Inr ((), emitEvents [Write (numberToString (util e) v)] s)"
    if "\<not> isolatedModules (compilerOptions e)" "getConstantValue (resolver e) node = Some v"
       "kind node = ElementAccessExpression" "removeComments (compilerOptions e)"
    using that
    by (simp add: tryEmitConstantValue_def tryGetConstEnumValue_def isElementAccessExpression_def
        isPropertyAccessExpression_def Let_def)
  have C: "emitElementAccessExpression e (Suc fuel) node s =
           Inr ((), emitEvents [Write ('' /* '' @ propertyName @ '' */'')] s2)"
    if "\<not> isolatedModules (compilerOptions e)" "getConstantValue (resolver e) node = Some v"
       "kind node = ElementAccessExpression" "\<not> removeComments (compilerOptions e)"
       "argumentExpression node = Some argument"
       "getTextOfNode e fuel argument None (emitEvents [Write (numberToString (util e) v)] s)
         = Inr (propertyName, s2)"
    using that
    by (simp add: tryEmitConstantValue_def tryGetConstEnumValue_def isElementAccessExpression_def
        isPropertyAccessExpression_def Let_def)
  have D: "emitElementAccessExpression e (Suc fuel) node s =
        runAll [emitExpression e fuel (expression node), writeText ''['',
                emitExpression e fuel (argumentExpression node), writeText '']''] s"
    if "isolatedModules (compilerOptions e)"
    using that by (simp add: tryEmitConstantValue_isolated)
  have E: "emitPropertyAccessExpression e (Suc fuel) node s =
        (case (needsIndentation e s (Some node) (expression node) (dotToken node),
               needsIndentation e s (Some node) (dotToken node) (name node),
               expression node) of
           (Inr indentBeforeDot, Inr indentAfterDot, Some target) \<Rightarrow>
             (case (if \<not> indentBeforeDot
                    then needsDotDotForPropertyAccess e fuel target s
                    else Inr (False, s)) of
                Inl err \<Rightarrow> Inl err
              | Inr (shouldEmitDotDot, s2) \<Rightarrow>
                  runAll
                    [emitExpression e fuel (expression node),
                     increaseIndentIf indentBeforeDot None,
                     writeText (if shouldEmitDotDot then ''..'' else ''.''),
                     increaseIndentIf indentAfterDot None,
                     emit e fuel (name node),
                     decreaseIndentIf indentBeforeDot indentAfterDot] s2)
         | _ \<Rightarrow> Inl TypeError)"
    if "isolatedModules (compilerOptions e)"
    using that by (simp add: tryEmitConstantValue_isolated)
  show ?thesis
    using A B C D E tryEmitConstantValue_isolated by blast
qed


text \<open>\<^verbatim>\<open>E.Name\<close> with the constant 3 renders as \<^verbatim>\<open>3 /* Name */\<close>, and as \<^verbatim>\<open>E.Name\<close> in
  isolated-module mode.\<close>

theorem tryEmitConstantValue_literal_witness:
  "emitPropertyAccessExpression (constantEnv False) (Suc 0) enumAccess emptySession =
     Inr ((), emptySession\<lparr>trace := [Write ''3'', Write '' /* Name */'']\<rparr>) \<and>
   emitPropertyAccessExpression (constantEnv True) (Suc (Suc (Suc (Suc (Suc 0))))) enumAccess
       emptySession =
     Inr ((), emptySession\<lparr>trace :=
        [EmitLeadingComments (plainNode Identifier 2 ''E'') [],
         EmitStart (plainNode Identifier 2 ''E'') False False,
         Write ''E'',
         EmitEnd (plainNode Identifier 2 ''E'') False False,
         EmitTrailingComments (plainNode Identifier 2 ''E'') [],
         Write ''.'',
         EmitLeadingComments (plainNode Identifier 4 ''Name'') [],
         EmitStart (plainNode Identifier 4 ''Name'') False False,
         Write ''Name'',
         EmitEnd (plainNode Identifier 4 ''Name'') False False,
         EmitTrailingComments (plainNode Identifier 4 ''Name'') []]\<rparr>)"
proof -
  have h1: "\<not> isolatedModules (compilerOptions (constantEnv False))"
    and h2: "getConstantValue (resolver (constantEnv False)) enumAccess = Some (Finite 3)"
    and h3: "kind enumAccess = PropertyAccessExpression"
    and h4: "isolatedModules (compilerOptions (constantEnv True))"
    by (simp_all add: constantEnv_def enumAccess_def eval_emit)
  from tryEmitConstantValue_literal
         [of "constantEnv False" enumAccess "Finite 3" 0 emptySession] h1 h2 h3
  have a: "emitPropertyAccessExpression (constantEnv False) (Suc 0) enumAccess emptySession =
     Inr ((), emptySession\<lparr>trace := [Write ''3'', Write '' /* Name */'']\<rparr>)"
    by (simp add: constantEnv_def enumAccess_def eval_emit)
  from tryEmitConstantValue_literal
         [of "constantEnv True" enumAccess "Finite 3" "Suc (Suc (Suc (Suc 0)))" emptySession] h4
  have b: "emitPropertyAccessExpression (constantEnv True) (Suc (Suc (Suc (Suc (Suc 0))))) enumAccess
       emptySession =
     Inr ((), emptySession\<lparr>trace :=
        [EmitLeadingComments (plainNode Identifier 2 ''E'') [],
         EmitStart (plainNode Identifier 2 ''E'') False False,
         Write ''E'',
         EmitEnd (plainNode Identifier 2 ''E'') False False,
         EmitTrailingComments (plainNode Identifier 2 ''E'') [],
         Write ''.'',
         EmitLeadingComments (plainNode Identifier 4 ''Name'') [],
         EmitStart (plainNode Identifier 4 ''Name'') False False,
         Write ''Name'',
         EmitEnd (plainNode Identifier 4 ''Name'') False False,
         EmitTrailingComments (plainNode Identifier 4 ''Name'') []]\<rparr>)"
    by (simp add: constantEnv_def enumAccess_def eval_emit)
  from a b show ?thesis by simp
qed


lemma substituted_returns:
  "(case (case r of Inl err \<Rightarrow> Inl err | Inr (u, s2) \<Rightarrow> Inr (True, s2)) of
      Inl err \<Rightarrow> Inl err
    | Inr (b, s1) \<Rightarrow> if b then Inr ((), s1) else f s1) =
   (case r of Inl err \<Rightarrow> Inl err | Inr (u, s2) \<Rightarrow> Inr ((), s2))"
  by (simp split: sum.splits prod.splits)

text \<open>
  Claim C7. When a substitution hook is present, the node does not carry
  \<^verbatim>\<open>NoSubstitution\<close> and the hook returns another object than the node it was given
  (\<^verbatim>\<open>substitute !== node\<close>, whatever the \<^verbatim>\<open>id\<close> of the two), \<^verbatim>\<open>tryEmitSubstitute\<close>
  adds \<^verbatim>\<open>NoSubstitution\<close> to the emit flags of the substitute, emits the substitute with
  \<^verbatim>\<open>emitWorker\<close> and answers true. In the state in which the substitute is emitted no hook
  is consulted for it: \<^verbatim>\<open>tryEmitSubstitute\<close> on the substitute answers false and leaves the
  state as it is. For an expression whose substitution is enabled (\<^verbatim>\<open>emitExpressionWorker\<close>)
  and for an identifier (\<^verbatim>\<open>emitWorker\<close>) the emission of the node is the emission of the
  substitute and nothing else: the original node is not emitted.
\<close>

theorem tryEmitSubstitute_substitute:
  assumes "NoSubstitution \<notin> getNodeEmitFlags s node"
    and "ref (hook node) \<noteq> ref node"
  shows "tryEmitSubstitute e (Suc fuel) node (Some hook) s =
           (case emitWorker e fuel (hook node) (substituted hook node s) of
              Inl err \<Rightarrow> Inl err
            | Inr (u, s2) \<Rightarrow> Inr (True, s2)) \<and>
         NoSubstitution \<in> getNodeEmitFlags (substituted hook node s) (hook node) \<and>
         tryEmitSubstitute e (Suc fuel') (hook node) anyHook (substituted hook node s) =
           Inr (False, substituted hook node s) \<and>
         (isExpressionSubstitutionEnabled (transformContext e) node \<and>
          expressionSubstitution (transformContext e) = Some hook \<longrightarrow>
            emitExpressionWorker e (Suc (Suc fuel)) node s =
              (case emitWorker e fuel (hook node) (substituted hook node s) of
                 Inl err \<Rightarrow> Inl err
               | Inr (u, s2) \<Rightarrow> Inr ((), s2))) \<and>
         (kind node = Identifier \<and> identifierSubstitution (transformContext e) = Some hook \<longrightarrow>
            emitWorker e (Suc (Suc fuel)) node s =
              (case emitWorker e fuel (hook node) (substituted hook node s) of
                 Inl err \<Rightarrow> Inl err
               | Inr (u, s2) \<Rightarrow> Inr ((), s2)))"
proof -
  have flags: "getNodeEmitFlags (emitEvents evs s) n = getNodeEmitFlags s n" for evs n
    by (simp add: getNodeEmitFlags_def emitEvents_def)
  have A: "tryEmitSubstitute e (Suc fuel) node (Some hook) s =
           (case emitWorker e fuel (hook node) (substituted hook node s) of
              Inl err \<Rightarrow> Inl err
            | Inr (u, s2) \<Rightarrow> Inr (True, s2))"
    using assms by (simp add: substituted_def Let_def flags)
  have B: "NoSubstitution \<in> getNodeEmitFlags (substituted hook node s) (hook node)"
    by (simp add: substituted_def getNodeEmitFlags_def setNodeEmitFlags_def)
  have C: "tryEmitSubstitute e (Suc fuel') (hook node) anyHook (substituted hook node s) =
           Inr (False, substituted hook node s)"
    using B by (cases anyHook) simp_all
  have D: "emitExpressionWorker e (Suc (Suc fuel)) node s =
              (case emitWorker e fuel (hook node) (substituted hook node s) of
                 Inl err \<Rightarrow> Inl err
               | Inr (u, s2) \<Rightarrow> Inr ((), s2))"
    if "isExpressionSubstitutionEnabled (transformContext e) node \<and>
        expressionSubstitution (transformContext e) = Some hook"
    using that
    by (simp add: A substituted_returns del: tryEmitSubstitute.simps)
  have E: "emitWorker e (Suc (Suc fuel)) node s =
              (case emitWorker e fuel (hook node) (substituted hook node s) of
                 Inl err \<Rightarrow> Inl err
               | Inr (u, s2) \<Rightarrow> Inr ((), s2))"
    if "kind node = Identifier \<and> identifierSubstitution (transformContext e) = Some hook"
    using that
    by (simp add: A substituted_returns del: tryEmitSubstitute.simps)
  show ?thesis
  proof (intro conjI impI)
    show "tryEmitSubstitute e (Suc fuel) node (Some hook) s =
           (case emitWorker e fuel (hook node) (substituted hook node s) of
              Inl err \<Rightarrow> Inl err
            | Inr (u, s2) \<Rightarrow> Inr (True, s2))"
      by (rule A)
    show "NoSubstitution \<in> getNodeEmitFlags (substituted hook node s) (hook node)"
      by (rule B)
    show "tryEmitSubstitute e (Suc fuel') (hook node) anyHook (substituted hook node s) =
           Inr (False, substituted hook node s)"
      by (rule C)
    show "emitExpressionWorker e (Suc (Suc fuel)) node s =
              (case emitWorker e fuel (hook node) (substituted hook node s) of
                 Inl err \<Rightarrow> Inl err
               | Inr (u, s2) \<Rightarrow> Inr ((), s2))"
      if "isExpressionSubstitutionEnabled (transformContext e) node \<and>
          expressionSubstitution (transformContext e) = Some hook"
      using that by (rule D)
    show "emitWorker e (Suc (Suc fuel)) node s =
              (case emitWorker e fuel (hook node) (substituted hook node s) of
                 Inl err \<Rightarrow> Inl err
               | Inr (u, s2) \<Rightarrow> Inr ((), s2))"
      if "kind node = Identifier \<and> identifierSubstitution (transformContext e) = Some hook"
      using that by (rule E)
  qed
qed


text \<open>The identifier \<^verbatim>\<open>x\<close> is replaced by \<^verbatim>\<open>y\<close>: the hook is called once, on \<^verbatim>\<open>x\<close>, and
  only \<^verbatim>\<open>y\<close> is written; so it is when the substitute is another object with the \<^verbatim>\<open>id\<close> of
  \<^verbatim>\<open>x\<close>.\<close>

theorem tryEmitSubstitute_substitute_witness:
  "emitExpressionWorker substitutionEnv (Suc (Suc (Suc (Suc 0)))) (plainNode Identifier 1 ''x'')
       emptySession =
     Inr ((), emptySession\<lparr>nodeEmitFlags := (\<lambda>i. {})(2 := {NoSubstitution}),
                          trace := [Substitution (plainNode Identifier 1 ''x''), Write ''y'']\<rparr>) \<and>
   nodeId sameIdSubstitute = nodeId (plainNode Identifier 1 ''x'') \<and>
   emitExpressionWorker sameIdSubstitutionEnv (Suc (Suc (Suc (Suc 0))))
       (plainNode Identifier 1 ''x'') emptySession =
     Inr ((), emptySession\<lparr>nodeEmitFlags := (\<lambda>i. {})(2 := {NoSubstitution}),
                          trace := [Substitution (plainNode Identifier 1 ''x''), Write ''y'']\<rparr>)"
proof -
  let ?hook = "\<lambda>node. if ref node = 1 then plainNode Identifier 2 ''y'' else node"
  let ?same = "\<lambda>node. if ref node = 1 then sameIdSubstitute else node"
  let ?x = "plainNode Identifier 1 ''x''"
  have h1: "NoSubstitution \<notin> getNodeEmitFlags emptySession ?x"
    and h2: "ref (?hook ?x) \<noteq> ref ?x"
    and h3: "isExpressionSubstitutionEnabled (transformContext substitutionEnv) ?x"
    and h4: "expressionSubstitution (transformContext substitutionEnv) = Some ?hook"
    and g2: "ref (?same ?x) \<noteq> ref ?x"
    and g3: "isExpressionSubstitutionEnabled (transformContext sameIdSubstitutionEnv) ?x"
    and g4: "expressionSubstitution (transformContext sameIdSubstitutionEnv) = Some ?same"
    by (simp_all add: substitutionEnv_def sameIdSubstitutionEnv_def sameIdSubstitute_def eval_emit)
  from tryEmitSubstitute_substitute
         [where hook = ?hook and node = ?x and s = emptySession and e = substitutionEnv
            and fuel = "Suc (Suc 0)", OF h1 h2] h3 h4
  have "emitExpressionWorker substitutionEnv (Suc (Suc (Suc (Suc 0)))) ?x emptySession =
          (case emitWorker substitutionEnv (Suc (Suc 0)) (?hook ?x) (substituted ?hook ?x emptySession) of
             Inl err \<Rightarrow> Inl err
           | Inr (u, s2) \<Rightarrow> Inr ((), s2))"
    by blast
  then have a: "emitExpressionWorker substitutionEnv (Suc (Suc (Suc (Suc 0)))) ?x emptySession =
     Inr ((), emptySession\<lparr>nodeEmitFlags := (\<lambda>i. {})(2 := {NoSubstitution}),
                          trace := [Substitution ?x, Write ''y'']\<rparr>)"
    by (simp add: substituted_def substitutionEnv_def eval_emit fun_upd_def)
  from tryEmitSubstitute_substitute
         [where hook = ?same and node = ?x and s = emptySession and e = sameIdSubstitutionEnv
            and fuel = "Suc (Suc 0)", OF h1 g2] g3 g4
  have "emitExpressionWorker sameIdSubstitutionEnv (Suc (Suc (Suc (Suc 0)))) ?x emptySession =
          (case emitWorker sameIdSubstitutionEnv (Suc (Suc 0)) (?same ?x)
                  (substituted ?same ?x emptySession) of
             Inl err \<Rightarrow> Inl err
           | Inr (u, s2) \<Rightarrow> Inr ((), s2))"
    by blast
  then have b: "emitExpressionWorker sameIdSubstitutionEnv (Suc (Suc (Suc (Suc 0)))) ?x emptySession =
     Inr ((), emptySession\<lparr>nodeEmitFlags := (\<lambda>i. {})(2 := {NoSubstitution}),
                          trace := [Substitution ?x, Write ''y'']\<rparr>)"
    by (simp add: substituted_def sameIdSubstitutionEnv_def sameIdSubstitute_def eval_emit
        fun_upd_def)
  have c: "nodeId sameIdSubstitute = nodeId ?x"
    by (simp add: sameIdSubstitute_def plainNode_def)
  from a b c show ?thesis by simp
qed






end
